theory Spec2Isabelle
  imports Main
begin

section \<open>Data model (models/class.py, models/membership.py)\<close>

text \<open>
  The tables of the store are lists of rows in row order; a query without
  \<^verbatim>\<open>order_by\<close> returns rows in that order, \<^verbatim>\<open>first()\<close> is the first
  matching row and \<^verbatim>\<open>order_by\<close> is a stable sort. An ORM object is a row
  index: assigning to a field of the object updates the row at that index.
  The \<^verbatim>\<open>classes\<close> table is only ever read through its primary key, so it
  is a map from the key to the row. Timestamps are integers and every
  \<^verbatim>\<open>datetime.utcnow()\<close> of one request reads the same instant \<open>now\<close>.
  Primary keys are the uuid strings of the source. The \<^verbatim>\<open>db.Integer\<close> columns
  hold the integers from \<open>- integer_max - 1\<close> to \<open>integer_max\<close>; the engine, and
  with it this bound, is configured outside these files, so the bound is a
  field of the store. A commit that writes an integer outside the range
  raises, like a commit that violates a constraint.
\<close>

datatype booking_status = Booked | Cancelled | Attended | NoShow

datatype waitlist_status = Waiting | Notified | Converted | Removed

datatype membership_status = Active | Paused | Expired | MCancelled

text \<open>
  A row of \<^verbatim>\<open>classes\<close>, with the \<^verbatim>\<open>credits_required\<close> column of the
  class type it references (\<^verbatim>\<open>class_obj.class_type.credits_required\<close>).
\<close>

record class_session =
  trainer_id :: string
  start_time :: int
  end_time :: int
  capacity :: int
  is_cancelled :: bool
  cancellation_reason :: "string option"
  credits_required :: int

record booking =
  b_id :: string
  b_user_id :: string
  b_class_id :: string
  b_status :: booking_status
  booking_time :: int
  cancellation_time :: "int option"
  b_cancellation_reason :: "string option"
  credits_used :: int

record waitlist_entry =
  w_id :: string
  w_user_id :: string
  w_class_id :: string
  position :: int
  join_time :: int
  w_status :: waitlist_status
  notification_time :: "int option"

record membership =
  m_id :: string
  m_user_id :: string
  m_end_date :: int
  m_status :: membership_status
  remaining_credits :: "int option"

record store =
  classes :: "string \<rightharpoonup> class_session"
  bookings :: "booking list"
  waitlist :: "waitlist_entry list"
  memberships :: "membership list"
  integer_max :: int

text \<open>
  The HTTP outcomes of the routes: 404, 400, 403, 409 and 500 (the
  \<^verbatim>\<open>except Exception\<close> branch after a rollback), and the three 2xx bodies.
\<close>

datatype failure = NotFound | InvalidState | Forbidden | Conflict | ServerError

datatype reply = BookingCreated string | AddedToWaitlist int | Done

type_synonym response = "failure + reply"

section \<open>Queries\<close>

text \<open>\<^verbatim>\<open>query.filter(P).first()\<close>: the index of the first row that satisfies \<open>P\<close>.\<close>

fun first_row :: "('a \<Rightarrow> bool) \<Rightarrow> 'a list \<Rightarrow> nat option" where
  "first_row P [] = None"
| "first_row P (x # xs) = (if P x then Some 0 else map_option Suc (first_row P xs))"

text \<open>\<^verbatim>\<open>query.filter(P).all()\<close>: the indices of the rows that satisfy \<open>P\<close>, in row order.\<close>

definition all_rows :: "('a \<Rightarrow> bool) \<Rightarrow> 'a list \<Rightarrow> nat list" where
  "all_rows P xs = filter (\<lambda>i. P (xs ! i)) [0..<length xs]"

definition is_active_booking :: "string \<Rightarrow> booking \<Rightarrow> bool" where
  "is_active_booking class_id b \<longleftrightarrow>
     b_class_id b = class_id \<and> (b_status b = Booked \<or> b_status b = Attended)"

text \<open>
  \<^verbatim>\<open>Booking.query.filter(class_id == .., status.in_(['booked', 'attended'])).count()\<close>
\<close>

definition booking_count :: "string \<Rightarrow> booking list \<Rightarrow> int" where
  "booking_count class_id bs = int (length (filter (is_active_booking class_id) bs))"

definition is_waiting :: "string \<Rightarrow> waitlist_entry \<Rightarrow> bool" where
  "is_waiting class_id e \<longleftrightarrow> w_class_id e = class_id \<and> w_status e = Waiting"

text \<open>
  \<^verbatim>\<open>Membership.query.filter(user_id == .., status == 'active', end_date >= utcnow()).first()\<close>
\<close>

definition active_membership :: "int \<Rightarrow> string \<Rightarrow> membership list \<Rightarrow> nat option" where
  "active_membership now user_id ms =
     first_row (\<lambda>m. m_user_id m = user_id \<and> m_status m = Active \<and> now \<le> m_end_date m) ms"

text \<open>
  \<^verbatim>\<open>db.session.query(func.max(position)).filter(..waiting..).scalar() or 0\<close>
\<close>

definition max_position :: "string \<Rightarrow> waitlist_entry list \<Rightarrow> int" where
  "max_position class_id ws =
     (case map position (filter (is_waiting class_id) ws) of
        [] \<Rightarrow> 0
      | p # ps \<Rightarrow> Max (set (p # ps)))"

section \<open>Inserts under the declared constraints\<close>

text \<open>
  \<^verbatim>\<open>db.session.add(row); db.session.commit()\<close>: the commit raises when the
  primary key or the table's \<^verbatim>\<open>UniqueConstraint('user_id', 'class_id')\<close> is
  violated; the route then rolls back and answers 500.
\<close>

definition insert_booking :: "booking \<Rightarrow> booking list \<Rightarrow> booking list option" where
  "insert_booking b bs =
     (if list_ex (\<lambda>x. b_id x = b_id b) bs
         \<or> list_ex (\<lambda>x. b_user_id x = b_user_id b \<and> b_class_id x = b_class_id b) bs
      then None else Some (bs @ [b]))"

definition insert_waitlist_entry ::
  "waitlist_entry \<Rightarrow> waitlist_entry list \<Rightarrow> waitlist_entry list option" where
  "insert_waitlist_entry e ws =
     (if list_ex (\<lambda>x. w_id x = w_id e) ws
         \<or> list_ex (\<lambda>x. w_user_id x = w_user_id e \<and> w_class_id x = w_class_id e) ws
      then None else Some (ws @ [e]))"

text \<open>Whether a computed integer can be written to a \<^verbatim>\<open>db.Integer\<close> column.\<close>

definition fits :: "int \<Rightarrow> int \<Rightarrow> bool" where
  "fits lim v \<longleftrightarrow> - lim - 1 \<le> v \<and> v \<le> lim"

section \<open>Waitlist helpers (routes/booking.py)\<close>

text \<open>
  \<^verbatim>\<open>for i, entry in enumerate(entries): entry.position = i + 1\<close>, with \<open>k\<close> the
  value of \<open>i\<close> at the head of the remaining entries.
\<close>

fun assign_positions :: "nat list \<Rightarrow> int \<Rightarrow> waitlist_entry list \<Rightarrow> waitlist_entry list" where
  "assign_positions [] k ws = ws"
| "assign_positions (i # entries) k ws =
     assign_positions entries (k + 1) (ws[i := (ws ! i)\<lparr>position := k + 1\<rparr>])"

definition reorder_waitlist :: "string \<Rightarrow> store \<Rightarrow> store" where
  "reorder_waitlist class_id s =
     (let ws = waitlist s;
          entries = sort_key (\<lambda>i. join_time (ws ! i)) (all_rows (is_waiting class_id) ws)
      in s\<lparr>waitlist := assign_positions entries 0 ws\<rparr>)"

definition process_waitlist :: "int \<Rightarrow> string \<Rightarrow> store \<Rightarrow> store" where
  "process_waitlist now class_id s =
     (case classes s class_id of
        None \<Rightarrow> s
      | Some class_obj \<Rightarrow>
          if capacity class_obj \<le> booking_count class_id (bookings s) then s
          else
            (case sort_key (\<lambda>i. position (waitlist s ! i))
                    (all_rows (is_waiting class_id) (waitlist s)) of
               [] \<Rightarrow> s
             | next_entry # _ \<Rightarrow>
                 reorder_waitlist class_id
                   (s\<lparr>waitlist := (waitlist s)[next_entry :=
                        (waitlist s ! next_entry)
                          \<lparr>w_status := Notified, notification_time := Some now\<rparr>]\<rparr>)))"

section \<open>Booking workflow (routes/booking.py)\<close>

text \<open>
  \<^verbatim>\<open>create_booking\<close> after the request body has been decoded: \<open>new_id\<close> is the
  value of \<^verbatim>\<open>str(uuid.uuid4())\<close>. A failure leaves the store as it was (no
  write happened, or the commit was rolled back). The commit raises when the
  insert violates a constraint or when the new waitlist position or the new
  credit balance does not fit the column.
\<close>

definition create_booking ::
  "int \<Rightarrow> string \<Rightarrow> string \<Rightarrow> string \<Rightarrow> store \<Rightarrow> response \<times> store" where
  "create_booking now new_id user_id class_id s =
     (case classes s class_id of
        None \<Rightarrow> (Inl NotFound, s)
      | Some class_obj \<Rightarrow>
          if start_time class_obj < now then (Inl InvalidState, s)
          else if is_cancelled class_obj then (Inl InvalidState, s)
          else if list_ex (\<lambda>b. is_active_booking class_id b \<and> b_user_id b = user_id) (bookings s)
          then (Inl Conflict, s)
          else
            (case active_membership now user_id (memberships s) of
               None \<Rightarrow> (Inl Forbidden, s)
             | Some mi \<Rightarrow>
                 if (case remaining_credits (memberships s ! mi) of
                       None \<Rightarrow> False
                     | Some r \<Rightarrow> r < credits_required class_obj)
                 then (Inl Forbidden, s)
                 else if capacity class_obj \<le> booking_count class_id (bookings s) then
                   (if list_ex (\<lambda>e. is_waiting class_id e \<and> w_user_id e = user_id) (waitlist s)
                    then (Inl Conflict, s)
                    else if \<not> fits (integer_max s) (max_position class_id (waitlist s) + 1)
                    then (Inl ServerError, s)
                    else
                      (case insert_waitlist_entry
                              \<lparr>w_id = new_id, w_user_id = user_id, w_class_id = class_id,
                               position = max_position class_id (waitlist s) + 1,
                               join_time = now, w_status = Waiting,
                               notification_time = None\<rparr> (waitlist s) of
                         None \<Rightarrow> (Inl ServerError, s)
                       | Some ws \<Rightarrow>
                           (Inr (AddedToWaitlist (max_position class_id (waitlist s) + 1)),
                            s\<lparr>waitlist := ws\<rparr>)))
                 else
                   (case insert_booking
                           \<lparr>b_id = new_id, b_user_id = user_id, b_class_id = class_id,
                            b_status = Booked, booking_time = now, cancellation_time = None,
                            b_cancellation_reason = None,
                            credits_used = credits_required class_obj\<rparr> (bookings s) of
                      None \<Rightarrow> (Inl ServerError, s)
                    | Some bs \<Rightarrow>
                        if (case remaining_credits (memberships s ! mi) of
                              None \<Rightarrow> False
                            | Some r \<Rightarrow> \<not> fits (integer_max s) (r - credits_required class_obj))
                        then (Inl ServerError, s)
                        else
                          (Inr (BookingCreated new_id),
                           s\<lparr>bookings := bs,
                             memberships :=
                               (case remaining_credits (memberships s ! mi) of
                                  None \<Rightarrow> memberships s
                                | Some r \<Rightarrow> (memberships s)[mi := (memberships s ! mi)
                                    \<lparr>remaining_credits := Some (r - credits_required class_obj)\<rparr>])\<rparr>))))"

text \<open>
  The route itself: \<open>data\<close> is the \<^verbatim>\<open>class_id\<close> field of the JSON body, \<open>None\<close>
  when the body or the field is missing; an empty value is refused too (400).
\<close>

definition create_booking_route ::
  "int \<Rightarrow> string \<Rightarrow> string \<Rightarrow> string option \<Rightarrow> store \<Rightarrow> response \<times> store" where
  "create_booking_route now new_id user_id data s =
     (case data of
        None \<Rightarrow> (Inl InvalidState, s)
      | Some class_id \<Rightarrow>
          if class_id = [] then (Inl InvalidState, s)
          else create_booking now new_id user_id class_id s)"

text \<open>
  The refund block shared by \<^verbatim>\<open>cancel_booking\<close> and \<^verbatim>\<open>cancel_class\<close>:
  \<^verbatim>\<open>if booking.credits_used > 0:\<close> look the user's active membership up again
  and, when it has finite credits, add the credits back. The result is
  \<open>None\<close> when the new balance does not fit the column: writing it raises,
  inside the \<^verbatim>\<open>try\<close> of either route.
\<close>

definition refund_credits ::
  "int \<Rightarrow> int \<Rightarrow> string \<Rightarrow> int \<Rightarrow> membership list \<Rightarrow> membership list option" where
  "refund_credits lim now user_id amount ms =
     (if 0 < amount then
        (case active_membership now user_id ms of
           None \<Rightarrow> Some ms
         | Some mi \<Rightarrow>
             (case remaining_credits (ms ! mi) of
                None \<Rightarrow> Some ms
              | Some r \<Rightarrow>
                  if fits lim (r + amount)
                  then Some (ms[mi := (ms ! mi)\<lparr>remaining_credits := Some (r + amount)\<rparr>])
                  else None))
      else Some ms)"

definition cancel_booking ::
  "int \<Rightarrow> string \<Rightarrow> string \<Rightarrow> string \<Rightarrow> string option \<Rightarrow> store \<Rightarrow> response \<times> store" where
  "cancel_booking now booking_id user_id user_role reason s =
     (case first_row (\<lambda>b. b_id b = booking_id) (bookings s) of
        None \<Rightarrow> (Inl NotFound, s)
      | Some bi \<Rightarrow>
          let booking = bookings s ! bi in
          if b_user_id booking \<noteq> user_id \<and> user_role \<noteq> ''admin'' \<and> user_role \<noteq> ''trainer''
          then (Inl Forbidden, s)
          else if b_status booking \<noteq> Booked then (Inl InvalidState, s)
          else
            (case classes s (b_class_id booking) of
               None \<Rightarrow> (Inl NotFound, s)
             | Some class_obj \<Rightarrow>
                 if start_time class_obj < now then (Inl InvalidState, s)
                 else
                   (case refund_credits (integer_max s) now (b_user_id booking)
                           (credits_used booking) (memberships s) of
                      None \<Rightarrow> (Inl ServerError, s)
                    | Some ms \<Rightarrow>
                        (Inr Done,
                         process_waitlist now (b_class_id booking)
                           (s\<lparr>bookings := (bookings s)[bi := booking
                                 \<lparr>b_status := Cancelled, cancellation_time := Some now,
                                  b_cancellation_reason := reason\<rparr>],
                              memberships := ms\<rparr>)))))"

definition remove_from_waitlist ::
  "string \<Rightarrow> string \<Rightarrow> string \<Rightarrow> store \<Rightarrow> response \<times> store" where
  "remove_from_waitlist entry_id user_id user_role s =
     (case first_row (\<lambda>e. w_id e = entry_id) (waitlist s) of
        None \<Rightarrow> (Inl NotFound, s)
      | Some ei \<Rightarrow>
          let entry = waitlist s ! ei in
          if w_user_id entry \<noteq> user_id \<and> user_role \<noteq> ''admin'' \<and> user_role \<noteq> ''trainer''
          then (Inl Forbidden, s)
          else if w_status entry \<noteq> Waiting then (Inl InvalidState, s)
          else
            (Inr Done,
             reorder_waitlist (w_class_id entry)
               (s\<lparr>waitlist := (waitlist s)[ei := entry\<lparr>w_status := Removed\<rparr>]\<rparr>)))"

section \<open>Class cancellation (routes/trainer.py)\<close>

text \<open>
  The loop of \<^verbatim>\<open>cancel_class\<close> over the bookings fetched before it: each is
  cancelled and refunded in turn. \<open>None\<close> when a refund cannot be written: the
  exception leaves the loop and reaches the \<^verbatim>\<open>except\<close> branch of the route.
\<close>

fun cancel_bookings ::
  "int \<Rightarrow> nat list \<Rightarrow> int \<Rightarrow> booking list \<times> membership list \<Rightarrow>
     (booking list \<times> membership list) option" where
  "cancel_bookings lim [] now (bs, ms) = Some (bs, ms)"
| "cancel_bookings lim (i # rest) now (bs, ms) =
     (case refund_credits lim now (b_user_id (bs ! i)) (credits_used (bs ! i)) ms of
        None \<Rightarrow> None
      | Some ms' \<Rightarrow>
          cancel_bookings lim rest now
            (bs[i := (bs ! i)\<lparr>b_status := Cancelled, cancellation_time := Some now,
                             b_cancellation_reason := Some ''Class cancelled by trainer''\<rparr>],
             ms'))"

text \<open>
  The first test is the decorator \<^verbatim>\<open>role_required(['trainer', 'admin'])\<close>;
  \<open>reason\<close> is \<^verbatim>\<open>data.get('reason')\<close>. When the loop raises, the route rolls
  back (the class flag with it) and answers 500.
\<close>

definition cancel_class ::
  "int \<Rightarrow> string \<Rightarrow> string \<Rightarrow> string \<Rightarrow> string option \<Rightarrow> store \<Rightarrow> response \<times> store" where
  "cancel_class now class_id user_id user_role reason s =
     (if user_role \<noteq> ''trainer'' \<and> user_role \<noteq> ''admin'' then (Inl Forbidden, s)
      else
        (case classes s class_id of
           None \<Rightarrow> (Inl NotFound, s)
         | Some class_obj \<Rightarrow>
             if user_role = ''trainer'' \<and> trainer_id class_obj \<noteq> user_id then (Inl Forbidden, s)
             else if is_cancelled class_obj then (Inl InvalidState, s)
             else if end_time class_obj < now then (Inl InvalidState, s)
             else if reason = None \<or> reason = Some [] then (Inl InvalidState, s)
             else
               (case cancel_bookings (integer_max s)
                       (all_rows (\<lambda>b. b_class_id b = class_id \<and> b_status b = Booked) (bookings s))
                       now (bookings s, memberships s) of
                  None \<Rightarrow> (Inl ServerError, s)
                | Some (bs, ms) \<Rightarrow>
                    (Inr Done,
                     s\<lparr>classes := (classes s)(class_id \<mapsto>
                           class_obj\<lparr>is_cancelled := True, cancellation_reason := reason\<rparr>),
                       bookings := bs, memberships := ms\<rparr>))))"

section \<open>The requests of the workflow as one step function\<close>

datatype request =
    CreateBooking int string string string
  | CancelBooking int string string string "string option"
  | RemoveFromWaitlist string string string
  | ProcessWaitlist int string
  | ReorderWaitlist string
  | CancelClass int string string string "string option"

fun handle :: "request \<Rightarrow> store \<Rightarrow> store" where
  "handle (CreateBooking now new_id user_id class_id) s =
     snd (create_booking now new_id user_id class_id s)"
| "handle (CancelBooking now booking_id user_id user_role reason) s =
     snd (cancel_booking now booking_id user_id user_role reason s)"
| "handle (RemoveFromWaitlist entry_id user_id user_role) s =
     snd (remove_from_waitlist entry_id user_id user_role s)"
| "handle (ProcessWaitlist now class_id) s = process_waitlist now class_id s"
| "handle (ReorderWaitlist class_id) s = reorder_waitlist class_id s"
| "handle (CancelClass now class_id user_id user_role reason) s =
     snd (cancel_class now class_id user_id user_role reason s)"

section \<open>The waitlist invariant and the refunds due\<close>

text \<open>
  The positions of the waiting entries of a class, in row order, and the
  invariant on them: no position twice, and the positions are exactly
  \<open>1, \<dots>, N\<close> for \<open>N\<close> waiting entries.
\<close>

definition waiting_positions :: "string \<Rightarrow> waitlist_entry list \<Rightarrow> int list" where
  "waiting_positions class_id ws = map position (filter (is_waiting class_id) ws)"

definition contiguous :: "string \<Rightarrow> waitlist_entry list \<Rightarrow> bool" where
  "contiguous class_id ws \<longleftrightarrow>
     distinct (waiting_positions class_id ws)
     \<and> set (waiting_positions class_id ws) = {1..int (length (waiting_positions class_id ws))}"

text \<open>
  What the cascade owes to the membership in row \<open>j\<close>: the credits of the
  bookings in \<open>rows\<close> that used credits and whose user's active unexpired
  membership is that row.
\<close>

definition refund_due ::
  "int \<Rightarrow> booking list \<Rightarrow> membership list \<Rightarrow> nat list \<Rightarrow> nat \<Rightarrow> int" where
  "refund_due now bs ms rows j =
     sum_list (map (\<lambda>i. credits_used (bs ! i))
       (filter (\<lambda>i. 0 < credits_used (bs ! i)
                   \<and> active_membership now (b_user_id (bs ! i)) ms = Some j) rows))"

section \<open>Example stores\<close>

text \<open>
  One class \<open>c1\<close> of capacity 1 starting at 100, one class \<open>c0\<close> that started at
  10; user \<open>A\<close> holds 2 credits, \<open>B\<close> holds none left, \<open>U\<close> is unlimited and \<open>N\<close>
  has no membership. The integer columns are 32 bits wide.
\<close>

definition studio :: store where
  "studio =
     \<lparr>classes =
        [''c1'' \<mapsto> \<lparr>trainer_id = ''T'', start_time = 100, end_time = 160, capacity = 1,
                    is_cancelled = False, cancellation_reason = None, credits_required = 1\<rparr>,
         ''c0'' \<mapsto> \<lparr>trainer_id = ''T'', start_time = 10, end_time = 70, capacity = 1,
                    is_cancelled = False, cancellation_reason = None, credits_required = 1\<rparr>],
      bookings = [],
      waitlist = [],
      memberships =
        [\<lparr>m_id = ''m1'', m_user_id = ''A'', m_end_date = 1000, m_status = Active,
          remaining_credits = Some 2\<rparr>,
         \<lparr>m_id = ''m2'', m_user_id = ''B'', m_end_date = 1000, m_status = Active,
          remaining_credits = Some 0\<rparr>,
         \<lparr>m_id = ''m3'', m_user_id = ''U'', m_end_date = 1000, m_status = Active,
          remaining_credits = None\<rparr>],
      integer_max = 2147483647\<rparr>"

text \<open>The store after \<open>A\<close> has booked \<open>c1\<close> at time 50: the class is full.\<close>

definition studio_full :: store where
  "studio_full = snd (create_booking 50 ''b1'' ''A'' ''c1'' studio)"

text \<open>The store after \<open>A\<close> has cancelled that booking at time 60.\<close>

definition studio_back :: store where
  "studio_back = snd (cancel_booking 60 ''b1'' ''A'' ''member'' None studio_full)"

text \<open>
  The store after the unlimited member \<open>U\<close> has booked \<open>c1\<close> at time 50, and
  the same store once the membership of \<open>U\<close> has become a plan with no
  credits left.
\<close>

definition studio_unlimited :: store where
  "studio_unlimited = snd (create_booking 50 ''b1'' ''U'' ''c1'' studio)"

definition studio_switched :: store where
  "studio_switched =
     studio_unlimited\<lparr>memberships := (memberships studio_unlimited)[2 :=
        (memberships studio_unlimited ! 2)\<lparr>remaining_credits := Some 0\<rparr>]\<rparr>"

text \<open>
  The full store after \<open>U\<close> has asked for \<open>c1\<close> at time 55 (and was put on the
  waitlist), and after \<open>U\<close> has then left the waitlist.
\<close>

definition studio_waiting :: store where
  "studio_waiting = snd (create_booking 55 ''w1'' ''U'' ''c1'' studio_full)"

definition studio_removed :: store where
  "studio_removed = snd (remove_from_waitlist ''w1'' ''U'' ''member'' studio_waiting)"

text \<open>
  A full class with two waiting entries whose positions have gaps and run
  against the join times.
\<close>

definition studio_gaps :: store where
  "studio_gaps = studio_full\<lparr>waitlist :=
     [\<lparr>w_id = ''w1'', w_user_id = ''U'', w_class_id = ''c1'', position = 3, join_time = 20,
       w_status = Waiting, notification_time = None\<rparr>,
      \<lparr>w_id = ''w2'', w_user_id = ''B'', w_class_id = ''c1'', position = 7, join_time = 10,
       w_status = Waiting, notification_time = None\<rparr>]\<rparr>"

text \<open>
  A class \<open>c3\<close> of capacity 3 with three booked members, each booking having
  used 1 credit: \<open>A\<close> and \<open>B\<close> on finite memberships, \<open>U\<close> unlimited.
\<close>

definition studio_three :: store where
  "studio_three =
     \<lparr>classes =
        [''c3'' \<mapsto> \<lparr>trainer_id = ''T'', start_time = 100, end_time = 160, capacity = 3,
                    is_cancelled = False, cancellation_reason = None, credits_required = 1\<rparr>],
      bookings =
        [\<lparr>b_id = ''b1'', b_user_id = ''A'', b_class_id = ''c3'', b_status = Booked,
          booking_time = 40, cancellation_time = None, b_cancellation_reason = None,
          credits_used = 1\<rparr>,
         \<lparr>b_id = ''b2'', b_user_id = ''B'', b_class_id = ''c3'', b_status = Booked,
          booking_time = 41, cancellation_time = None, b_cancellation_reason = None,
          credits_used = 1\<rparr>,
         \<lparr>b_id = ''b3'', b_user_id = ''U'', b_class_id = ''c3'', b_status = Booked,
          booking_time = 42, cancellation_time = None, b_cancellation_reason = None,
          credits_used = 1\<rparr>],
      waitlist = [],
      memberships =
        [\<lparr>m_id = ''m1'', m_user_id = ''A'', m_end_date = 1000, m_status = Active,
          remaining_credits = Some 1\<rparr>,
         \<lparr>m_id = ''m2'', m_user_id = ''B'', m_end_date = 1000, m_status = Active,
          remaining_credits = Some 0\<rparr>,
         \<lparr>m_id = ''m3'', m_user_id = ''U'', m_end_date = 1000, m_status = Active,
          remaining_credits = None\<rparr>],
      integer_max = 2147483647\<rparr>"

text \<open>
  The store in the middle of the cancellation by \<open>A\<close> at time 60 while \<open>U\<close>
  waits: the booking is cancelled and refunded, the waitlist not yet
  processed. And the same store when two joins have raced: two waiting
  entries share position 1, the later joiner in the earlier row.
\<close>

definition studio_freed :: store where
  "studio_freed = studio_waiting\<lparr>
     bookings := [\<lparr>b_id = ''b1'', b_user_id = ''A'', b_class_id = ''c1'',
           b_status = Cancelled, booking_time = 50, cancellation_time = Some 60,
           b_cancellation_reason = None, credits_used = 1\<rparr>],
     memberships := memberships studio\<rparr>"

definition studio_tie :: store where
  "studio_tie = studio_freed\<lparr>waitlist :=
     [\<lparr>w_id = ''w1'', w_user_id = ''U'', w_class_id = ''c1'', position = 1, join_time = 56,
       w_status = Waiting, notification_time = None\<rparr>,
      \<lparr>w_id = ''w2'', w_user_id = ''B'', w_class_id = ''c1'', position = 1, join_time = 55,
       w_status = Waiting, notification_time = None\<rparr>]\<rparr>"

text \<open>
  The studio when the class type of \<open>c1\<close> has been given \<open>credits_required = -1\<close>
  (the admin routes store whatever integer they are sent).
\<close>

definition studio_negative :: store where
  "studio_negative = studio\<lparr>classes := (classes studio)(''c1'' \<mapsto>
     \<lparr>trainer_id = ''T'', start_time = 100, end_time = 160, capacity = 1,
      is_cancelled = False, cancellation_reason = None, credits_required = - 1\<rparr>)\<rparr>"

text \<open>
  The same three bookings when the membership of \<open>A\<close> already holds the
  largest balance the column can store.
\<close>

definition studio_three_max :: store where
  "studio_three_max = studio_three\<lparr>memberships := (memberships studio_three)[0 :=
     (memberships studio_three ! 0)\<lparr>remaining_credits := Some 2147483647\<rparr>]\<rparr>"

section \<open>Facts about the queries\<close>

lemma first_row_None_iff: "first_row P xs = None \<longleftrightarrow> (\<forall>x\<in>set xs. \<not> P x)"
  by (induction xs) auto

lemma first_row_SomeD:
  "first_row P xs = Some i \<Longrightarrow> i < length xs \<and> P (xs ! i) \<and> (\<forall>j<i. \<not> P (xs ! j))"
proof (induction xs arbitrary: i)
  case Nil
  then show ?case by simp
next
  case (Cons x xs)
  show ?case
  proof (cases "P x")
    case True
    with Cons.prems show ?thesis by simp
  next
    case False
    with Cons.prems obtain k where k: "first_row P xs = Some k" "i = Suc k"
      by auto
    from Cons.IH [OF k(1)] False k(2) show ?thesis
      by (auto simp: less_Suc_eq_0_disj)
  qed
qed

section \<open>Failure guards of create_booking\<close>

lemma create_booking_failure_unchanged:
  "fst (create_booking now new_id user_id class_id s) = Inl e \<Longrightarrow>
   snd (create_booking now new_id user_id class_id s) = s"
  by (auto simp: create_booking_def split: option.splits if_splits)

text \<open>
  Claim C8. The guards of \<^verbatim>\<open>create_booking\<close> in the order of the code: an
  unknown class is NotFound; a class that has started or is cancelled is
  InvalidState; then, for a user without an active booking on the class (the
  Conflict test stands between), no active unexpired membership is Forbidden
  and finite credits below the credits required is Forbidden. Whatever the
  failure, the store that comes back is the store that went in: no booking,
  no waitlist entry, no credit change.
\<close>

theorem create_booking_guards:
  "(classes s class_id = None \<longrightarrow>
      create_booking now new_id user_id class_id s = (Inl NotFound, s))
   \<and> (\<forall>c. classes s class_id = Some c \<and> (start_time c < now \<or> is_cancelled c) \<longrightarrow>
        create_booking now new_id user_id class_id s = (Inl InvalidState, s))
   \<and> (\<forall>c. classes s class_id = Some c \<and> \<not> start_time c < now \<and> \<not> is_cancelled c
          \<and> \<not> (\<exists>b\<in>set (bookings s). is_active_booking class_id b \<and> b_user_id b = user_id)
          \<and> \<not> (\<exists>m\<in>set (memberships s).
                  m_user_id m = user_id \<and> m_status m = Active \<and> now \<le> m_end_date m) \<longrightarrow>
        create_booking now new_id user_id class_id s = (Inl Forbidden, s))
   \<and> (\<forall>c mi r. classes s class_id = Some c \<and> \<not> start_time c < now \<and> \<not> is_cancelled c
          \<and> \<not> (\<exists>b\<in>set (bookings s). is_active_booking class_id b \<and> b_user_id b = user_id)
          \<and> active_membership now user_id (memberships s) = Some mi
          \<and> remaining_credits (memberships s ! mi) = Some r \<and> r < credits_required c \<longrightarrow>
        create_booking now new_id user_id class_id s = (Inl Forbidden, s))
   \<and> (\<forall>e. fst (create_booking now new_id user_id class_id s) = Inl e \<longrightarrow>
        snd (create_booking now new_id user_id class_id s) = s)"
proof (intro conjI allI impI)
  assume "classes s class_id = None"
  then show "create_booking now new_id user_id class_id s = (Inl NotFound, s)"
    by (simp add: create_booking_def)
next
  fix c
  assume "classes s class_id = Some c \<and> (start_time c < now \<or> is_cancelled c)"
  then show "create_booking now new_id user_id class_id s = (Inl InvalidState, s)"
    by (auto simp: create_booking_def)
next
  fix c
  assume a: "classes s class_id = Some c \<and> \<not> start_time c < now \<and> \<not> is_cancelled c
          \<and> \<not> (\<exists>b\<in>set (bookings s). is_active_booking class_id b \<and> b_user_id b = user_id)
          \<and> \<not> (\<exists>m\<in>set (memberships s).
                  m_user_id m = user_id \<and> m_status m = Active \<and> now \<le> m_end_date m)"
  then have "active_membership now user_id (memberships s) = None"
    by (simp add: active_membership_def first_row_None_iff)
  with a show "create_booking now new_id user_id class_id s = (Inl Forbidden, s)"
    by (simp add: create_booking_def list_ex_iff)
next
  fix c mi r
  assume "classes s class_id = Some c \<and> \<not> start_time c < now \<and> \<not> is_cancelled c
          \<and> \<not> (\<exists>b\<in>set (bookings s). is_active_booking class_id b \<and> b_user_id b = user_id)
          \<and> active_membership now user_id (memberships s) = Some mi
          \<and> remaining_credits (memberships s ! mi) = Some r \<and> r < credits_required c"
  then show "create_booking now new_id user_id class_id s = (Inl Forbidden, s)"
    by (simp add: create_booking_def list_ex_iff)
next
  fix e
  assume "fst (create_booking now new_id user_id class_id s) = Inl e"
  then show "snd (create_booking now new_id user_id class_id s) = s"
    by (rule create_booking_failure_unchanged)
qed

theorem create_booking_guards_witness:
  "create_booking 50 ''b1'' ''A'' ''zz'' studio = (Inl NotFound, studio)
   \<and> create_booking 50 ''b1'' ''A'' ''c0'' studio = (Inl InvalidState, studio)
   \<and> create_booking 50 ''b1'' ''N'' ''c1'' studio = (Inl Forbidden, studio)
   \<and> create_booking 50 ''b1'' ''B'' ''c1'' studio = (Inl Forbidden, studio)"
proof -
  have h1: "classes studio ''zz'' = None"
    by (simp add: studio_def)
  obtain c0 where h2: "classes studio ''c0'' = Some c0 \<and> (start_time c0 < 50 \<or> is_cancelled c0)"
    by (simp add: studio_def)
  obtain c1 where c1: "classes studio ''c1'' = Some c1" "\<not> start_time c1 < 50"
      "\<not> is_cancelled c1" "0 < credits_required c1"
    by (simp add: studio_def)
  have nb: "\<And>u. \<not> (\<exists>b\<in>set (bookings studio). is_active_booking ''c1'' b \<and> b_user_id b = u)"
    by (simp add: studio_def)
  have h3: "\<not> (\<exists>m\<in>set (memberships studio).
              m_user_id m = ''N'' \<and> m_status m = Active \<and> 50 \<le> m_end_date m)"
    by (simp add: studio_def)
  have h4: "active_membership 50 ''B'' (memberships studio) = Some 1"
      "remaining_credits (memberships studio ! 1) = Some 0"
    by (simp_all add: studio_def active_membership_def)
  from create_booking_guards [of studio "''zz''" 50 "''b1''" "''A''"] h1
  have r1: "create_booking 50 ''b1'' ''A'' ''zz'' studio = (Inl NotFound, studio)"
    by blast
  from create_booking_guards [of studio "''c0''" 50 "''b1''" "''A''"] h2
  have r2: "create_booking 50 ''b1'' ''A'' ''c0'' studio = (Inl InvalidState, studio)"
    by blast
  from create_booking_guards [of studio "''c1''" 50 "''b1''" "''N''"] c1 nb h3
  have r3: "create_booking 50 ''b1'' ''N'' ''c1'' studio = (Inl Forbidden, studio)"
    by blast
  from create_booking_guards [of studio "''c1''" 50 "''b1''" "''B''"] c1 nb h4
  have r4: "create_booking 50 ''b1'' ''B'' ''c1'' studio = (Inl Forbidden, studio)"
    by blast
  from r1 r2 r3 r4 show ?thesis by blast
qed

section \<open>Capacity\<close>

lemma assign_positions_length [simp]: "length (assign_positions is k ws) = length ws"
  by (induction "is" arbitrary: k ws) auto

lemma reorder_waitlist_other [simp]:
  "bookings (reorder_waitlist c s) = bookings s"
  "memberships (reorder_waitlist c s) = memberships s"
  "classes (reorder_waitlist c s) = classes s"
  by (simp_all add: reorder_waitlist_def Let_def)

lemma process_waitlist_other [simp]:
  "bookings (process_waitlist now c s) = bookings s"
  "memberships (process_waitlist now c s) = memberships s"
  "classes (process_waitlist now c s) = classes s"
  by (simp_all add: process_waitlist_def split: option.splits list.splits)






lemma create_booking_classes [simp]:
  "classes (snd (create_booking now nid uid k s)) = classes s"
  by (auto simp: create_booking_def split: option.splits if_splits)

lemma cancel_booking_classes [simp]:
  "classes (snd (cancel_booking now b u r re s)) = classes s"
  by (auto simp: cancel_booking_def Let_def split: option.splits if_splits)


lemma remove_from_waitlist_other [simp]:
  "bookings (snd (remove_from_waitlist e u r s)) = bookings s"
  "classes (snd (remove_from_waitlist e u r s)) = classes s"
  "memberships (snd (remove_from_waitlist e u r s)) = memberships s"
  by (auto simp: remove_from_waitlist_def Let_def split: option.splits if_splits)









lemma studio_full_eq:
  "studio_full = studio\<lparr>bookings := [\<lparr>b_id = ''b1'', b_user_id = ''A'', b_class_id = ''c1'',
           b_status = Booked, booking_time = 50, cancellation_time = None,
           b_cancellation_reason = None, credits_used = 1\<rparr>],
      memberships :=
        [\<lparr>m_id = ''m1'', m_user_id = ''A'', m_end_date = 1000, m_status = Active,
          remaining_credits = Some 1\<rparr>,
         \<lparr>m_id = ''m2'', m_user_id = ''B'', m_end_date = 1000, m_status = Active,
          remaining_credits = Some 0\<rparr>,
         \<lparr>m_id = ''m3'', m_user_id = ''U'', m_end_date = 1000, m_status = Active,
          remaining_credits = None\<rparr>]\<rparr>"
  by (simp add: studio_full_def studio_def create_booking_def active_membership_def
        booking_count_def insert_booking_def is_active_booking_def fits_def)


section \<open>Credits: booking and cancelling\<close>

lemma first_row_SomeI:
  "i < length xs \<Longrightarrow> P (xs ! i) \<Longrightarrow> (\<forall>j<i. \<not> P (xs ! j)) \<Longrightarrow> first_row P xs = Some i"
proof (induction xs arbitrary: i)
  case Nil
  then show ?case by simp
next
  case (Cons x xs)
  show ?case
  proof (cases i)
    case 0
    with Cons.prems show ?thesis by simp
  next
    case (Suc k)
    with Cons.prems have "\<not> P x" by auto
    moreover from Suc Cons.prems have "first_row P xs = Some k"
      by (intro Cons.IH) auto
    ultimately show ?thesis using Suc by simp
  qed
qed

lemma first_row_update_same:
  "P y = P (xs ! i) \<Longrightarrow> first_row P (xs[i := y]) = first_row P xs"
proof (induction xs arbitrary: i)
  case Nil
  then show ?case by simp
next
  case (Cons x xs)
  then show ?case by (cases i) auto
qed

lemma first_row_snoc_fresh:
  "\<forall>x\<in>set xs. \<not> P x \<Longrightarrow> P y \<Longrightarrow> first_row P (xs @ [y]) = Some (length xs)"
  by (induction xs) auto

lemma active_membership_credits [simp]:
  "active_membership now uid (ms[i := (ms ! i)\<lparr>remaining_credits := x\<rparr>]) = active_membership now uid ms"
  unfolding active_membership_def by (rule first_row_update_same) simp

lemma active_membership_unique:
  assumes "mi < length ms" "m_user_id (ms ! mi) = uid" "m_status (ms ! mi) = Active"
    "now \<le> m_end_date (ms ! mi)"
    "\<forall>j<length ms. j \<noteq> mi \<longrightarrow> \<not> (m_user_id (ms ! j) = uid \<and> m_status (ms ! j) = Active \<and> t \<le> m_end_date (ms ! j))"
    "t \<le> now"
  shows "active_membership now uid ms = Some mi"
  unfolding active_membership_def
proof (rule first_row_SomeI)
  show "mi < length ms" by fact
  show "m_user_id (ms ! mi) = uid \<and> m_status (ms ! mi) = Active \<and> now \<le> m_end_date (ms ! mi)"
    using assms by simp
  show "\<forall>j<mi. \<not> (m_user_id (ms ! j) = uid \<and> m_status (ms ! j) = Active \<and> now \<le> m_end_date (ms ! j))"
    using assms by (metis less_trans nat_neq_iff order_trans)
qed

lemma create_booking_created:
  assumes "create_booking now nid uid cid s = (Inr (BookingCreated b), s1)"
    and "classes s cid = Some c"
  shows "\<exists>mi. active_membership now uid (memberships s) = Some mi
    \<and> b = nid
    \<and> (\<forall>x\<in>set (bookings s). b_id x \<noteq> nid)
    \<and> s1 = s\<lparr>bookings := bookings s @ [\<lparr>b_id = nid, b_user_id = uid, b_class_id = cid,
                            b_status = Booked, booking_time = now, cancellation_time = None,
                            b_cancellation_reason = None,
                            credits_used = credits_required c\<rparr>],
              memberships := (case remaining_credits (memberships s ! mi) of
                                None \<Rightarrow> memberships s
                              | Some r \<Rightarrow> (memberships s)[mi := (memberships s ! mi)
                                  \<lparr>remaining_credits := Some (r - credits_required c)\<rparr>])\<rparr>"
  using assms
  by (auto simp: create_booking_def insert_booking_def list_ex_iff split: option.splits if_splits)

lemma refund_credits_Some:
  assumes "refund_credits lim now u a ms = Some ms'"
  shows "ms' = (if 0 < a then
                  (case active_membership now u ms of
                     None \<Rightarrow> ms
                   | Some mi \<Rightarrow>
                       (case remaining_credits (ms ! mi) of
                          None \<Rightarrow> ms
                        | Some r \<Rightarrow> ms[mi := (ms ! mi)\<lparr>remaining_credits := Some (r + a)\<rparr>]))
                else ms)"
  using assms by (auto simp: refund_credits_def split: option.splits if_splits)

lemma cancel_booking_done:
  assumes "cancel_booking now bid actor ro reason s = (Inr Done, s')"
  shows "\<exists>bi ms'. first_row (\<lambda>b. b_id b = bid) (bookings s) = Some bi
    \<and> b_status (bookings s ! bi) = Booked
    \<and> refund_credits (integer_max s) now (b_user_id (bookings s ! bi))
          (credits_used (bookings s ! bi)) (memberships s) = Some ms'
    \<and> s' = process_waitlist now (b_class_id (bookings s ! bi))
             (s\<lparr>bookings := (bookings s)[bi := (bookings s ! bi)
                            \<lparr>b_status := Cancelled, cancellation_time := Some now,
                             b_cancellation_reason := reason\<rparr>],
                 memberships := ms'\<rparr>)"
  using assms
  by (auto simp: cancel_booking_def Let_def split: option.splits if_splits)

text \<open>
  Claim C3 as stated fails when the credits required are negative: in
  \<open>studio_negative\<close> member \<open>A\<close>, whose one active membership holds 2 credits,
  books \<open>c1\<close> and the balance becomes 3 (the debit subtracts \<open>-1\<close>); the
  cancellation succeeds and refunds nothing, because the test
  \<^verbatim>\<open>credits_used > 0\<close> fails, so the balance stays 3.
\<close>

theorem booking_round_trip_counterexample:
  "active_membership 50 ''A'' (memberships studio_negative) = Some 0
   \<and> remaining_credits (memberships studio_negative ! 0) = Some 2
   \<and> fst (create_booking 50 ''b1'' ''A'' ''c1'' studio_negative) = Inr (BookingCreated ''b1'')
   \<and> remaining_credits
        (memberships (snd (create_booking 50 ''b1'' ''A'' ''c1'' studio_negative)) ! 0) = Some 3
   \<and> fst (cancel_booking 60 ''b1'' ''A'' ''member'' None
             (snd (create_booking 50 ''b1'' ''A'' ''c1'' studio_negative))) = Inr Done
   \<and> active_membership 60 ''A''
        (memberships (snd (create_booking 50 ''b1'' ''A'' ''c1'' studio_negative))) = Some 0
   \<and> remaining_credits
        (memberships (snd (cancel_booking 60 ''b1'' ''A'' ''member'' None
             (snd (create_booking 50 ''b1'' ''A'' ''c1'' studio_negative)))) ! 0) = Some 3"
  by (simp add: studio_negative_def studio_def create_booking_def cancel_booking_def
        refund_credits_def active_membership_def booking_count_def insert_booking_def
        is_active_booking_def fits_def)

text \<open>
  Claim C3, amended by the condition that the class requires a non-negative
  number of credits. A user holds exactly one active unexpired membership,
  with finite credits \<open>r\<close>. If \<^verbatim>\<open>create_booking\<close> answers with a booking
  and \<^verbatim>\<open>cancel_booking\<close> of that booking then succeeds at a later instant at
  which the membership is still active and unexpired, the booking has debited
  the credits required and the cancellation has put them back:
  \<^verbatim>\<open>remaining_credits\<close> is \<open>r\<close> again, and the whole memberships table is
  as before the booking.
\<close>

theorem booking_round_trip:
  assumes book: "create_booking now nid uid cid s = (Inr (BookingCreated b), s1)"
    and cancel: "cancel_booking now' b actor ro reason s1 = (Inr Done, s2)"
    and later: "now \<le> now'"
    and mi: "mi < length (memberships s)" "m_user_id (memberships s ! mi) = uid"
      "m_status (memberships s ! mi) = Active" "now' \<le> m_end_date (memberships s ! mi)"
    and one: "\<forall>j<length (memberships s). j \<noteq> mi \<longrightarrow>
        \<not> (m_user_id (memberships s ! j) = uid \<and> m_status (memberships s ! j) = Active
           \<and> now \<le> m_end_date (memberships s ! j))"
    and finite: "remaining_credits (memberships s ! mi) = Some r"
    and cls: "classes s cid = Some c" "0 \<le> credits_required c"
  shows "remaining_credits (memberships s1 ! mi) = Some (r - credits_required c)
       \<and> remaining_credits (memberships s2 ! mi) = Some r
       \<and> memberships s2 = memberships s"
proof -
  let ?ms = "memberships s"
  let ?cr = "credits_required c"
  let ?ms1 = "?ms[mi := (?ms ! mi)\<lparr>remaining_credits := Some (r - ?cr)\<rparr>]"
  have am: "active_membership now uid ?ms = Some mi"
    using mi one later by (intro active_membership_unique [where t = now]) auto
  have am': "active_membership now' uid ?ms = Some mi"
    using mi one later by (intro active_membership_unique [where t = now]) auto
  from create_booking_created [OF book cls(1)] am finite
  have b: "b = nid" and fresh: "\<forall>x\<in>set (bookings s). b_id x \<noteq> nid"
    and s1: "s1 = s\<lparr>bookings := bookings s @ [\<lparr>b_id = nid, b_user_id = uid, b_class_id = cid,
                            b_status = Booked, booking_time = now, cancellation_time = None,
                            b_cancellation_reason = None, credits_used = ?cr\<rparr>],
              memberships := ?ms1\<rparr>"
    by auto
  have row: "first_row (\<lambda>x. b_id x = b) (bookings s1) = Some (length (bookings s))"
    using fresh by (simp add: s1 b first_row_snoc_fresh)
  have m1: "memberships s1 = ?ms1" by (simp add: s1)
  have new_row: "b_user_id (bookings s1 ! length (bookings s)) = uid"
      "credits_used (bookings s1 ! length (bookings s)) = ?cr"
    by (simp_all add: s1)
  from cancel_booking_done [OF cancel]
  obtain bi ms' where bi: "first_row (\<lambda>x. b_id x = b) (bookings s1) = Some bi"
    and rf: "refund_credits (integer_max s1) now' (b_user_id (bookings s1 ! bi))
          (credits_used (bookings s1 ! bi)) (memberships s1) = Some ms'"
    and s2: "s2 = process_waitlist now' (b_class_id (bookings s1 ! bi))
             (s1\<lparr>bookings := (bookings s1)[bi := (bookings s1 ! bi)
                            \<lparr>b_status := Cancelled, cancellation_time := Some now',
                             b_cancellation_reason := reason\<rparr>],
                 memberships := ms'\<rparr>)"
    by blast
  from bi row have "bi = length (bookings s)" by simp
  with rf new_row m1
  have rf': "refund_credits (integer_max s1) now' uid ?cr ?ms1 = Some ms'" by simp
  have eq: "memberships s2 = ms'" by (subst s2) simp
  have ms2: "memberships s2 = (if 0 < ?cr then
                  (case active_membership now' uid ?ms1 of
                     None \<Rightarrow> ?ms1
                   | Some mi \<Rightarrow>
                       (case remaining_credits (?ms1 ! mi) of
                          None \<Rightarrow> ?ms1
                        | Some r \<Rightarrow> ?ms1[mi := (?ms1 ! mi)\<lparr>remaining_credits := Some (r + ?cr)\<rparr>]))
                else ?ms1)"
    unfolding eq by (rule refund_credits_Some [OF rf'])
  have "memberships s2 = ?ms"
  proof (cases "0 < ?cr")
    case True
    then have "memberships s2 = ?ms1[mi := (?ms1 ! mi)\<lparr>remaining_credits := Some (r - ?cr + ?cr)\<rparr>]"
      using mi(1) am' by (simp add: ms2)
    also have "\<dots> = ?ms[mi := (?ms ! mi)\<lparr>remaining_credits := Some r\<rparr>]"
      using mi(1) by simp
    also have "\<dots> = ?ms"
      using finite mi(1) by (metis list_update_id membership.surjective membership.update_convs(5))
    finally show ?thesis .
  next
    case False
    with cls(2) have z: "?cr = 0" by simp
    then have "memberships s2 = ?ms[mi := (?ms ! mi)\<lparr>remaining_credits := Some r\<rparr>]"
      by (simp add: ms2)
    also have "\<dots> = ?ms"
      using finite mi(1) by (metis list_update_id membership.surjective membership.update_convs(5))
    finally show ?thesis .
  qed
  with finite m1 mi(1) show ?thesis by simp
qed

lemma studio_book: "create_booking 50 ''b1'' ''A'' ''c1'' studio = (Inr (BookingCreated ''b1''), studio_full)"
  by (simp add: studio_full_def studio_def create_booking_def active_membership_def
        booking_count_def insert_booking_def is_active_booking_def fits_def)

lemma all_rows_Nil [simp]: "all_rows P [] = []"
  by (simp add: all_rows_def)

lemma studio_cancel:
  "cancel_booking 60 ''b1'' ''A'' ''member'' None studio_full = (Inr Done, studio_back)"
  by (simp add: studio_back_def studio_full_eq studio_def cancel_booking_def refund_credits_def
        active_membership_def fits_def)

theorem booking_round_trip_witness:
  "remaining_credits (memberships studio ! 0) = Some 2
   \<and> remaining_credits (memberships studio_full ! 0) = Some 1
   \<and> remaining_credits (memberships studio_back ! 0) = Some 2"
proof -
  obtain c where c: "classes studio ''c1'' = Some c" "credits_required c = 1"
    by (simp add: studio_def)
  have m: "0 < length (memberships studio)" "m_user_id (memberships studio ! 0) = ''A''"
      "m_status (memberships studio ! 0) = Active" "60 \<le> m_end_date (memberships studio ! 0)"
      "remaining_credits (memberships studio ! 0) = Some 2"
    by (simp_all add: studio_def)
  have one: "\<forall>j<length (memberships studio). j \<noteq> 0 \<longrightarrow>
        \<not> (m_user_id (memberships studio ! j) = ''A'' \<and> m_status (memberships studio ! j) = Active
           \<and> 50 \<le> m_end_date (memberships studio ! j))"
    by (simp add: studio_def nth_Cons split: nat.splits)
  from booking_round_trip [OF studio_book studio_cancel _ m(1-4) one m(5) c(1)] c(2) m(5)
  show ?thesis by simp
qed

section \<open>Refunds on cancellation\<close>

text \<open>
  Claim C6. When \<^verbatim>\<open>cancel_booking\<close> succeeds on a booking (row \<open>bi\<close>) that
  used credits, the row is cancelled with the cancellation time and reason;
  the user's active unexpired membership is looked up at that moment: if
  there is one and it has finite credits, exactly that row gains
  \<^verbatim>\<open>credits_used\<close>; if there is none, or it is unlimited, no membership
  changes; and the store returned is what \<^verbatim>\<open>process_waitlist\<close> makes, for
  the booking's class, of the store with these two writes.
\<close>

theorem cancel_booking_refund:
  assumes ok: "cancel_booking now bid actor ro reason s = (Inr Done, s')"
    and row: "first_row (\<lambda>b. b_id b = bid) (bookings s) = Some bi"
    and used: "0 < credits_used (bookings s ! bi)"
  shows "bookings s' = (bookings s)[bi := (bookings s ! bi)
            \<lparr>b_status := Cancelled, cancellation_time := Some now,
             b_cancellation_reason := reason\<rparr>]
    \<and> b_status (bookings s' ! bi) = Cancelled
    \<and> cancellation_time (bookings s' ! bi) = Some now
    \<and> (\<forall>mi r. active_membership now (b_user_id (bookings s ! bi)) (memberships s) = Some mi
          \<and> remaining_credits (memberships s ! mi) = Some r \<longrightarrow>
        memberships s' = (memberships s)[mi := (memberships s ! mi)
            \<lparr>remaining_credits := Some (r + credits_used (bookings s ! bi))\<rparr>])
    \<and> (\<forall>mi. active_membership now (b_user_id (bookings s ! bi)) (memberships s) = Some mi
          \<and> remaining_credits (memberships s ! mi) = None \<longrightarrow>
        memberships s' = memberships s)
    \<and> (active_membership now (b_user_id (bookings s ! bi)) (memberships s) = None \<longrightarrow>
        memberships s' = memberships s)
    \<and> s' = process_waitlist now (b_class_id (bookings s ! bi))
             (s\<lparr>bookings := bookings s', memberships := memberships s'\<rparr>)"
proof -
  from first_row_SomeD [OF row] have bi: "bi < length (bookings s)" by simp
  from cancel_booking_done [OF ok] row
  obtain ms' where rf: "refund_credits (integer_max s) now (b_user_id (bookings s ! bi))
          (credits_used (bookings s ! bi)) (memberships s) = Some ms'"
    and s': "s' = process_waitlist now (b_class_id (bookings s ! bi))
             (s\<lparr>bookings := (bookings s)[bi := (bookings s ! bi)
                            \<lparr>b_status := Cancelled, cancellation_time := Some now,
                             b_cancellation_reason := reason\<rparr>],
                 memberships := ms'\<rparr>)"
    by auto
  have b: "bookings s' = (bookings s)[bi := (bookings s ! bi)
            \<lparr>b_status := Cancelled, cancellation_time := Some now,
             b_cancellation_reason := reason\<rparr>]"
    by (subst s') simp
  have m0: "memberships s' = ms'"
    by (subst s') simp
  have m: "memberships s' =
      (if 0 < credits_used (bookings s ! bi) then
         (case active_membership now (b_user_id (bookings s ! bi)) (memberships s) of
            None \<Rightarrow> memberships s
          | Some mi \<Rightarrow>
              (case remaining_credits (memberships s ! mi) of
                 None \<Rightarrow> memberships s
               | Some r \<Rightarrow> (memberships s)[mi := (memberships s ! mi)
                   \<lparr>remaining_credits := Some (r + credits_used (bookings s ! bi))\<rparr>]))
       else memberships s)"
    unfolding m0 by (rule refund_credits_Some [OF rf])
  have "s' = process_waitlist now (b_class_id (bookings s ! bi))
             (s\<lparr>bookings := bookings s', memberships := memberships s'\<rparr>)"
    unfolding b m0 by (rule s')
  moreover from b bi have "b_status (bookings s' ! bi) = Cancelled"
      "cancellation_time (bookings s' ! bi) = Some now"
    by simp_all
  moreover from m used have
    "\<forall>mi r. active_membership now (b_user_id (bookings s ! bi)) (memberships s) = Some mi
          \<and> remaining_credits (memberships s ! mi) = Some r \<longrightarrow>
        memberships s' = (memberships s)[mi := (memberships s ! mi)
            \<lparr>remaining_credits := Some (r + credits_used (bookings s ! bi))\<rparr>]"
    "\<forall>mi. active_membership now (b_user_id (bookings s ! bi)) (memberships s) = Some mi
          \<and> remaining_credits (memberships s ! mi) = None \<longrightarrow> memberships s' = memberships s"
    "active_membership now (b_user_id (bookings s ! bi)) (memberships s) = None \<longrightarrow>
        memberships s' = memberships s"
    by simp_all
  ultimately show ?thesis using b by blast
qed

theorem cancel_booking_refund_witness:
  "memberships studio_back = (memberships studio_full)[0 := (memberships studio_full ! 0)
      \<lparr>remaining_credits := Some (1 + 1)\<rparr>]
   \<and> b_status (bookings studio_back ! 0) = Cancelled"
proof -
  have row: "first_row (\<lambda>b. b_id b = ''b1'') (bookings studio_full) = Some 0"
    by (simp add: studio_full_eq)
  have used: "0 < credits_used (bookings studio_full ! 0)"
      "credits_used (bookings studio_full ! 0) = 1"
    by (simp_all add: studio_full_eq)
  have am: "active_membership 60 (b_user_id (bookings studio_full ! 0)) (memberships studio_full) = Some 0"
       "remaining_credits (memberships studio_full ! 0) = Some 1"
    by (simp_all add: studio_full_eq active_membership_def)
  from cancel_booking_refund [OF studio_cancel row used(1)] am
  have "memberships studio_back = (memberships studio_full)[0 := (memberships studio_full ! 0)
      \<lparr>remaining_credits := Some (1 + credits_used (bookings studio_full ! 0))\<rparr>]"
    and "b_status (bookings studio_back ! 0) = Cancelled"
    by blast+
  then show ?thesis by (simp only: used(2))
qed

text \<open>
  Claim C10. A booking made while the user's active membership is unlimited
  records \<^verbatim>\<open>credits_used = credits_required\<close> and changes no membership.
  If the memberships then change so that, when the booking is cancelled, the
  user's active unexpired membership has finite credits \<open>r\<close>, the cancellation
  raises it to \<open>r + credits_required\<close>: credits that no membership ever paid.
\<close>

theorem unlimited_booking_refund_creates_credits:
  assumes book: "create_booking now nid uid cid s = (Inr (BookingCreated b), s1)"
    and cls: "classes s cid = Some c" "0 < credits_required c"
    and unl: "active_membership now uid (memberships s) = Some mi"
      "remaining_credits (memberships s ! mi) = None"
    and t: "bookings t = bookings s1" "classes t = classes s1"
    and cancel: "cancel_booking now' b actor ro reason t = (Inr Done, t')"
    and fin: "active_membership now' uid (memberships t) = Some mj"
      "remaining_credits (memberships t ! mj) = Some r"
  shows "memberships s1 = memberships s
    \<and> credits_used (last (bookings s1)) = credits_required c
    \<and> b_id (last (bookings s1)) = b
    \<and> memberships t' = (memberships t)[mj := (memberships t ! mj)
          \<lparr>remaining_credits := Some (r + credits_required c)\<rparr>]"
proof -
  from create_booking_created [OF book cls(1)] unl
  have b: "b = nid" and fresh: "\<forall>x\<in>set (bookings s). b_id x \<noteq> nid"
    and s1: "s1 = s\<lparr>bookings := bookings s @ [\<lparr>b_id = nid, b_user_id = uid, b_class_id = cid,
                            b_status = Booked, booking_time = now, cancellation_time = None,
                            b_cancellation_reason = None, credits_used = credits_required c\<rparr>],
              memberships := memberships s\<rparr>"
    by auto
  have row: "first_row (\<lambda>x. b_id x = b) (bookings t) = Some (length (bookings s))"
    using fresh by (simp add: t s1 b first_row_snoc_fresh)
  have new_row: "b_user_id (bookings t ! length (bookings s)) = uid"
      "credits_used (bookings t ! length (bookings s)) = credits_required c"
    by (simp_all add: t s1)
  from cancel_booking_done [OF cancel]
  obtain bi ms' where bi: "first_row (\<lambda>x. b_id x = b) (bookings t) = Some bi"
    and rf: "refund_credits (integer_max t) now' (b_user_id (bookings t ! bi))
          (credits_used (bookings t ! bi)) (memberships t) = Some ms'"
    and t': "t' = process_waitlist now' (b_class_id (bookings t ! bi))
             (t\<lparr>bookings := (bookings t)[bi := (bookings t ! bi)
                            \<lparr>b_status := Cancelled, cancellation_time := Some now',
                             b_cancellation_reason := reason\<rparr>],
                 memberships := ms'\<rparr>)"
    by blast
  from bi row have "bi = length (bookings s)" by simp
  with rf new_row
  have rf': "refund_credits (integer_max t) now' uid (credits_required c) (memberships t) = Some ms'"
    by simp
  have "memberships t' = ms'" by (subst t') simp
  with refund_credits_Some [OF rf'] fin cls(2)
  have "memberships t' = (memberships t)[mj := (memberships t ! mj)
          \<lparr>remaining_credits := Some (r + credits_required c)\<rparr>]"
    by simp
  then show ?thesis by (simp add: s1 b)
qed

lemma studio_unlimited_eq:
  "studio_unlimited = studio\<lparr>bookings := [\<lparr>b_id = ''b1'', b_user_id = ''U'', b_class_id = ''c1'',
           b_status = Booked, booking_time = 50, cancellation_time = None,
           b_cancellation_reason = None, credits_used = 1\<rparr>]\<rparr>"
  by (simp add: studio_unlimited_def studio_def create_booking_def active_membership_def
        booking_count_def insert_booking_def is_active_booking_def fits_def)

lemma studio_unlimited_book:
  "create_booking 50 ''b1'' ''U'' ''c1'' studio = (Inr (BookingCreated ''b1''), studio_unlimited)"
  by (simp add: studio_unlimited_def studio_def create_booking_def active_membership_def
        booking_count_def insert_booking_def is_active_booking_def fits_def)

theorem unlimited_booking_refund_creates_credits_witness:
  "memberships studio_unlimited = memberships studio
   \<and> remaining_credits (memberships studio_switched ! 2) = Some 0
   \<and> remaining_credits
        (memberships (snd (cancel_booking 60 ''b1'' ''U'' ''member'' None studio_switched)) ! 2)
      = Some 1"
proof -
  obtain c where c: "classes studio ''c1'' = Some c" "credits_required c = 1"
    by (simp add: studio_def)
  have unl: "active_membership 50 ''U'' (memberships studio) = Some 2"
      "remaining_credits (memberships studio ! 2) = None"
    by (simp_all add: studio_def active_membership_def)
  have t: "bookings studio_switched = bookings studio_unlimited"
      "classes studio_switched = classes studio_unlimited"
    by (simp_all add: studio_switched_def)
  have cancel: "cancel_booking 60 ''b1'' ''U'' ''member'' None studio_switched =
      (Inr Done, snd (cancel_booking 60 ''b1'' ''U'' ''member'' None studio_switched))"
    by (simp add: studio_switched_def studio_unlimited_eq studio_def cancel_booking_def
        refund_credits_def active_membership_def fits_def)
  have fin: "active_membership 60 ''U'' (memberships studio_switched) = Some 2"
      "remaining_credits (memberships studio_switched ! 2) = Some 0"
    by (simp_all add: studio_switched_def studio_unlimited_eq studio_def active_membership_def)
  have len: "2 < length (memberships studio_switched)"
    by (simp add: studio_switched_def studio_unlimited_eq studio_def)
  from unlimited_booking_refund_creates_credits
    [OF studio_unlimited_book c(1) _ unl t cancel fin] c(2)
  have "memberships studio_unlimited = memberships studio"
    and "memberships (snd (cancel_booking 60 ''b1'' ''U'' ''member'' None studio_switched)) =
      (memberships studio_switched)[2 := (memberships studio_switched ! 2)
          \<lparr>remaining_credits := Some (0 + 1)\<rparr>]"
    by simp_all
  with fin(2) len show ?thesis by simp
qed

section \<open>The unique constraints against the status filters\<close>

lemma studio_waiting_eq:
  "studio_waiting = studio_full\<lparr>waitlist := [\<lparr>w_id = ''w1'', w_user_id = ''U'', w_class_id = ''c1'',
      position = 1, join_time = 55, w_status = Waiting, notification_time = None\<rparr>]\<rparr>"
  by (simp add: studio_waiting_def studio_full_eq studio_def create_booking_def active_membership_def
        booking_count_def insert_waitlist_entry_def is_active_booking_def max_position_def
        fits_def)

lemma studio_removed_eq:
  "studio_removed = studio_full\<lparr>waitlist := [\<lparr>w_id = ''w1'', w_user_id = ''U'', w_class_id = ''c1'',
      position = 1, join_time = 55, w_status = Removed, notification_time = None\<rparr>]\<rparr>"
  by (simp add: studio_removed_def studio_waiting_eq remove_from_waitlist_def reorder_waitlist_def
      all_rows_def is_waiting_def)

lemma studio_back_eq:
  "studio_back = studio\<lparr>bookings := [\<lparr>b_id = ''b1'', b_user_id = ''A'', b_class_id = ''c1'',
           b_status = Cancelled, booking_time = 50, cancellation_time = Some 60,
           b_cancellation_reason = None, credits_used = 1\<rparr>]\<rparr>"
  by (simp add: studio_back_def studio_full_eq studio_def cancel_booking_def refund_credits_def
       active_membership_def process_waitlist_def booking_count_def is_active_booking_def
       fits_def)

lemma create_booking_conflict_cases:
  assumes "fst (create_booking now nid uid cid s) = Inl Conflict"
  shows "(\<exists>b\<in>set (bookings s). is_active_booking cid b \<and> b_user_id b = uid)
       \<or> (\<exists>e\<in>set (waitlist s). is_waiting cid e \<and> w_user_id e = uid)"
  using assms
  by (auto simp: create_booking_def list_ex_iff split: option.splits if_splits)

lemma create_booking_active_conflict:
  assumes "classes s cid = Some c" "\<not> start_time c < now" "\<not> is_cancelled c"
    and "b \<in> set (bookings s)" "is_active_booking cid b" "b_user_id b = uid"
  shows "create_booking now nid uid cid s = (Inl Conflict, s)"
  using assms by (auto simp: create_booking_def list_ex_iff)

text \<open>
  Claim C9, at the store where \<open>A\<close> has booked \<open>c1\<close> and cancelled: \<open>A\<close> holds
  no active booking for \<open>c1\<close>, has an active membership with 2 credits, and the
  class has room; yet a new \<^verbatim>\<open>create_booking\<close> of \<open>A\<close> for \<open>c1\<close> answers 500
  and books nothing, because the cancelled row still occupies
  \<^verbatim>\<open>unique_user_class_booking\<close>.
\<close>

theorem rebooking_after_cancel_is_server_error:
  "list_ex (\<lambda>b. is_active_booking ''c1'' b \<and> b_user_id b = ''A'') (bookings studio_back) = False
   \<and> b_status (bookings studio_back ! 0) = Cancelled
   \<and> active_membership 70 ''A'' (memberships studio_back) = Some 0
   \<and> remaining_credits (memberships studio_back ! 0) = Some 2
   \<and> booking_count ''c1'' (bookings studio_back) = 0
   \<and> create_booking 70 ''b2'' ''A'' ''c1'' studio_back = (Inl ServerError, studio_back)"
  by (simp add: studio_back_eq studio_def create_booking_def active_membership_def
        booking_count_def insert_booking_def is_active_booking_def fits_def)

text \<open>
  Claim C4, at the store where \<open>c1\<close> is full and \<open>U\<close> has joined and left its
  waitlist: \<open>U\<close> passes every earlier check and has no waiting entry, yet
  \<^verbatim>\<open>create_booking\<close> answers 500 and adds no waitlist entry, because the
  removed row still occupies \<^verbatim>\<open>unique_user_class_waitlist\<close>.
\<close>

theorem rejoining_waitlist_is_server_error:
  "booking_count ''c1'' (bookings studio_removed) = 1
   \<and> list_ex (\<lambda>e. is_waiting ''c1'' e \<and> w_user_id e = ''U'') (waitlist studio_removed) = False
   \<and> w_status (waitlist studio_removed ! 0) = Removed
   \<and> active_membership 70 ''U'' (memberships studio_removed) = Some 2
   \<and> create_booking 70 ''w2'' ''U'' ''c1'' studio_removed = (Inl ServerError, studio_removed)"
  by (simp add: studio_removed_eq studio_full_eq studio_def create_booking_def
        active_membership_def booking_count_def insert_waitlist_entry_def is_active_booking_def
        is_waiting_def max_position_def fits_def)

section \<open>Waitlist positions\<close>

lemma filter_all_rows: "filter P xs = map ((!) xs) (all_rows P xs)"
proof -
  have "filter P (map ((!) xs) [0..<length xs]) = map ((!) xs) (all_rows P xs)"
    by (simp add: filter_map all_rows_def comp_def)
  then show ?thesis by (simp add: map_nth)
qed

lemma all_rows_bound: "i \<in> set (all_rows P xs) \<Longrightarrow> i < length xs \<and> P (xs ! i)"
  by (simp add: all_rows_def)

lemma all_rows_distinct [simp]: "distinct (all_rows P xs)"
  by (simp add: all_rows_def)

lemma all_rows_cong:
  assumes "length ys = length xs" "\<And>i. i < length xs \<Longrightarrow> P (ys ! i) = P (xs ! i)"
  shows "all_rows P ys = all_rows P xs"
  using assms by (auto simp: all_rows_def intro: filter_cong)

lemma filter_rows_cong:
  assumes "length ys = length xs" "\<And>i. i < length xs \<Longrightarrow> P (ys ! i) = P (xs ! i)"
    and "\<And>i. i < length xs \<Longrightarrow> P (xs ! i) \<Longrightarrow> ys ! i = xs ! i"
  shows "filter P ys = filter P xs"
proof -
  have "map ((!) ys) (all_rows P xs) = map ((!) xs) (all_rows P xs)"
    using assms(3) by (auto dest: all_rows_bound)
  then show ?thesis
    using all_rows_cong [OF assms(1,2)] by (simp add: filter_all_rows)
qed

lemma assign_positions_untouched:
  "j \<notin> set entries \<Longrightarrow> assign_positions entries k ws ! j = ws ! j"
  by (induction entries arbitrary: k ws) auto

lemma assign_positions_nth:
  assumes "distinct entries" "\<forall>i\<in>set entries. i < length ws" "n < length entries"
  shows "assign_positions entries k ws ! (entries ! n)
         = (ws ! (entries ! n))\<lparr>position := k + int n + 1\<rparr>"
  using assms
proof (induction entries arbitrary: k ws n)
  case Nil
  then show ?case by simp
next
  case (Cons i entries)
  let ?ws = "ws[i := (ws ! i)\<lparr>position := k + 1\<rparr>]"
  show ?case
  proof (cases n)
    case 0
    with Cons.prems show ?thesis by (simp add: assign_positions_untouched)
  next
    case (Suc m)
    with Cons.prems have m: "m < length entries" "entries ! m \<noteq> i" by auto
    from Cons.prems have "distinct entries" "\<forall>i\<in>set entries. i < length ?ws" by auto
    from Cons.IH [OF this m(1), of "k + 1"] m(2) Suc show ?thesis by simp
  qed
qed

lemma assign_positions_fields:
  "w_class_id (assign_positions entries k ws ! j) = w_class_id (ws ! j)
   \<and> w_status (assign_positions entries k ws ! j) = w_status (ws ! j)
   \<and> join_time (assign_positions entries k ws ! j) = join_time (ws ! j)
   \<and> w_user_id (assign_positions entries k ws ! j) = w_user_id (ws ! j)
   \<and> w_id (assign_positions entries k ws ! j) = w_id (ws ! j)"
proof (induction entries arbitrary: k ws)
  case Nil
  then show ?case by simp
next
  case (Cons i entries)
  have "w_class_id (ws[i := (ws ! i)\<lparr>position := k + 1\<rparr>] ! j) = w_class_id (ws ! j)
   \<and> w_status (ws[i := (ws ! i)\<lparr>position := k + 1\<rparr>] ! j) = w_status (ws ! j)
   \<and> join_time (ws[i := (ws ! i)\<lparr>position := k + 1\<rparr>] ! j) = join_time (ws ! j)
   \<and> w_user_id (ws[i := (ws ! i)\<lparr>position := k + 1\<rparr>] ! j) = w_user_id (ws ! j)
   \<and> w_id (ws[i := (ws ! i)\<lparr>position := k + 1\<rparr>] ! j) = w_id (ws ! j)"
    by (cases "i < length ws"; cases "i = j") (simp_all add: list_update_beyond)
  with Cons.IH [of "k + 1" "ws[i := (ws ! i)\<lparr>position := k + 1\<rparr>]"] show ?case by simp
qed

lemma assign_positions_waiting [simp]:
  "is_waiting c (assign_positions entries k ws ! j) = is_waiting c (ws ! j)"
  by (simp add: is_waiting_def assign_positions_fields)

lemma upto_from_one: "map (\<lambda>n. int n + 1) [0..<N] = [1..int N]"
proof (induction N)
  case 0
  then show ?case by simp
next
  case (Suc N)
  have "[1..int (Suc N)] = [1..int N] @ [int N + 1]"
    using upto_rec2 [of 1 "int (Suc N)"] by simp
  with Suc show ?case by simp
qed

lemma map_by_index: "map f xs = map (\<lambda>n. f (xs ! n)) [0..<length xs]"
  by (rule nth_equalityI) simp_all

lemma reorder_waitlist_rows:
  "waitlist (reorder_waitlist cid s) =
     assign_positions (sort_key (\<lambda>i. join_time (waitlist s ! i))
        (all_rows (is_waiting cid) (waitlist s))) 0 (waitlist s)"
  by (simp add: reorder_waitlist_def Let_def)

lemma reorder_waitlist_length [simp]:
  "length (waitlist (reorder_waitlist cid s)) = length (waitlist s)"
  by (simp add: reorder_waitlist_rows)

lemma reorder_waitlist_waiting [simp]:
  "is_waiting c (waitlist (reorder_waitlist cid s) ! j) = is_waiting c (waitlist s ! j)"
  by (simp add: reorder_waitlist_rows)

lemma reorder_waitlist_join_time [simp]:
  "join_time (waitlist (reorder_waitlist cid s) ! j) = join_time (waitlist s ! j)"
  by (simp add: reorder_waitlist_rows assign_positions_fields)

lemma reorder_waitlist_nth:
  assumes "n < length (all_rows (is_waiting cid) (waitlist s))"
  shows "position (waitlist (reorder_waitlist cid s) !
            (sort_key (\<lambda>i. join_time (waitlist s ! i)) (all_rows (is_waiting cid) (waitlist s)) ! n))
         = int n + 1"
proof -
  let ?E = "sort_key (\<lambda>i. join_time (waitlist s ! i)) (all_rows (is_waiting cid) (waitlist s))"
  have "distinct ?E" by simp
  moreover have "\<forall>i\<in>set ?E. i < length (waitlist s)"
    by (auto dest: all_rows_bound)
  moreover have "n < length ?E" using assms by simp
  ultimately show ?thesis
    using assign_positions_nth [of ?E "waitlist s" n 0] by (simp add: reorder_waitlist_rows)
qed

lemma reorder_waitlist_other_rows:
  assumes "\<not> is_waiting cid (waitlist s ! j)"
  shows "waitlist (reorder_waitlist cid s) ! j = waitlist s ! j"
proof -
  have "j \<notin> set (all_rows (is_waiting cid) (waitlist s))"
    using assms by (auto dest: all_rows_bound)
  then show ?thesis
    by (simp add: reorder_waitlist_rows assign_positions_untouched)
qed

lemma reorder_waiting_positions:
  "waiting_positions cid (waitlist (reorder_waitlist cid s)) =
     map (\<lambda>j. position (waitlist (reorder_waitlist cid s) ! j))
       (all_rows (is_waiting cid) (waitlist s))"
proof -
  have "all_rows (is_waiting cid) (waitlist (reorder_waitlist cid s))
        = all_rows (is_waiting cid) (waitlist s)"
    by (rule all_rows_cong) simp_all
  then show ?thesis
    by (simp add: waiting_positions_def filter_all_rows comp_def)
qed

lemma reorder_positions_in_order:
  "map (\<lambda>j. position (waitlist (reorder_waitlist cid s) ! j))
     (sort_key (\<lambda>i. join_time (waitlist s ! i)) (all_rows (is_waiting cid) (waitlist s)))
   = [1..int (length (all_rows (is_waiting cid) (waitlist s)))]"
proof -
  let ?R = "all_rows (is_waiting cid) (waitlist s)"
  let ?E = "sort_key (\<lambda>i. join_time (waitlist s ! i)) ?R"
  let ?f = "\<lambda>j. position (waitlist (reorder_waitlist cid s) ! j)"
  have "map ?f ?E = map (\<lambda>n. ?f (?E ! n)) [0..<length ?E]"
    by (rule map_by_index)
  also have "\<dots> = map (\<lambda>n. int n + 1) [0..<length ?R]"
    by (simp add: reorder_waitlist_nth)
  also have "\<dots> = [1..int (length ?R)]"
    by (rule upto_from_one)
  finally show ?thesis .
qed

lemma reorder_waitlist_contiguous: "contiguous cid (waitlist (reorder_waitlist cid s))"
proof -
  let ?R = "all_rows (is_waiting cid) (waitlist s)"
  let ?E = "sort_key (\<lambda>i. join_time (waitlist s ! i)) ?R"
  let ?f = "\<lambda>j. position (waitlist (reorder_waitlist cid s) ! j)"
  let ?wp = "waiting_positions cid (waitlist (reorder_waitlist cid s))"
  have wp: "?wp = map ?f ?R" by (rule reorder_waiting_positions)
  have len: "length ?wp = length ?R" by (simp add: wp)
  have "set ?wp = ?f ` set ?E" by (simp add: wp)
  also have "\<dots> = set (map ?f ?E)" by simp
  also have "\<dots> = {1..int (length ?R)}"
    by (simp only: reorder_positions_in_order set_upto)
  finally have st: "set ?wp = {1..int (length ?wp)}" by (simp add: len)
  then have "card (set ?wp) = length ?wp" by simp
  then have "distinct ?wp" by (rule card_distinct)
  with st show ?thesis by (simp add: contiguous_def)
qed

lemma reorder_waitlist_by_join_time:
  assumes i: "i < length (waitlist s)" "is_waiting cid (waitlist s ! i)"
    and j: "j < length (waitlist s)" "is_waiting cid (waitlist s ! j)"
    and lt: "join_time (waitlist s ! i) < join_time (waitlist s ! j)"
  shows "position (waitlist (reorder_waitlist cid s) ! i)
       < position (waitlist (reorder_waitlist cid s) ! j)"
proof -
  let ?R = "all_rows (is_waiting cid) (waitlist s)"
  let ?jt = "\<lambda>i. join_time (waitlist s ! i)"
  let ?E = "sort_key ?jt ?R"
  from i j have ij: "i \<in> set ?E" "j \<in> set ?E" by (simp_all add: all_rows_def)
  from ij(1) obtain a where a: "a < length ?E" "?E ! a = i"
    by (metis in_set_conv_nth)
  from ij(2) obtain b where b: "b < length ?E" "?E ! b = j"
    by (metis in_set_conv_nth)
  have srt: "sorted (map ?jt ?E)" by (rule sorted_sort_key)
  have "a < b"
  proof (rule ccontr)
    assume "\<not> a < b"
    then have "b \<le> a" by simp
    with srt a(1) have "map ?jt ?E ! b \<le> map ?jt ?E ! a"
      by (intro sorted_nth_mono) simp_all
    with a b lt show False by simp
  qed
  moreover from a b have "position (waitlist (reorder_waitlist cid s) ! i) = int a + 1"
      "position (waitlist (reorder_waitlist cid s) ! j) = int b + 1"
    using reorder_waitlist_nth [of a cid s] reorder_waitlist_nth [of b cid s] by simp_all
  ultimately show ?thesis by simp
qed

lemma reorder_waitlist_other_class:
  assumes "cid \<noteq> k"
  shows "waiting_positions cid (waitlist (reorder_waitlist k s)) = waiting_positions cid (waitlist s)"
proof -
  have "filter (is_waiting cid) (waitlist (reorder_waitlist k s)) = filter (is_waiting cid) (waitlist s)"
  proof (rule filter_rows_cong)
    fix i
    assume "is_waiting cid (waitlist s ! i)"
    with assms have "\<not> is_waiting k (waitlist s ! i)" by (auto simp: is_waiting_def)
    then show "waitlist (reorder_waitlist k s) ! i = waitlist s ! i"
      by (rule reorder_waitlist_other_rows)
  qed simp_all
  then show ?thesis by (simp add: waiting_positions_def)
qed

lemma waiting_positions_update:
  assumes "i < length ws \<Longrightarrow> \<not> is_waiting cid (ws ! i)" "\<not> is_waiting cid e"
  shows "waiting_positions cid (ws[i := e]) = waiting_positions cid ws"
proof -
  have "filter (is_waiting cid) (ws[i := e]) = filter (is_waiting cid) ws"
  proof (rule filter_rows_cong)
    fix j
    assume "j < length ws"
    with assms show "is_waiting cid (ws[i := e] ! j) = is_waiting cid (ws ! j)"
      by (cases "i = j") auto
  next
    fix j
    assume "j < length ws" "is_waiting cid (ws ! j)"
    with assms show "ws[i := e] ! j = ws ! j"
      by (cases "i = j") auto
  qed simp
  then show ?thesis by (simp add: waiting_positions_def)
qed

lemma contiguous_max_position:
  assumes "contiguous cid ws"
  shows "max_position cid ws = int (length (waiting_positions cid ws))"
proof (cases "waiting_positions cid ws")
  case Nil
  then show ?thesis by (simp add: max_position_def waiting_positions_def)
next
  case (Cons p ps)
  let ?N = "int (length (waiting_positions cid ws))"
  from Cons have "max_position cid ws = Max (set (waiting_positions cid ws))"
    by (simp add: max_position_def waiting_positions_def)
  also from assms have "\<dots> = Max {1..?N}" by (simp add: contiguous_def)
  also have "\<dots> = ?N"
    using Cons by (intro Max_eqI) auto
  finally show ?thesis .
qed

lemma contiguous_join:
  assumes "contiguous cid ws" "is_waiting cid e" "position e = max_position cid ws + 1"
  shows "contiguous cid (ws @ [e])"
proof -
  let ?wp = "waiting_positions cid ws"
  have wp: "waiting_positions cid (ws @ [e]) = ?wp @ [int (length ?wp) + 1]"
    using assms contiguous_max_position [OF assms(1)] by (simp add: waiting_positions_def)
  from assms(1) have d: "distinct ?wp" and s: "set ?wp = {1..int (length ?wp)}"
    by (simp_all add: contiguous_def)
  from d s have "distinct (?wp @ [int (length ?wp) + 1])" by simp
  moreover from s have "set (?wp @ [int (length ?wp) + 1]) = {1..int (length ?wp) + 1}"
    by auto
  ultimately show ?thesis by (simp add: contiguous_def wp add.commute)
qed

lemma contiguous_snoc_other:
  assumes "\<not> is_waiting cid e"
  shows "contiguous cid (ws @ [e]) = contiguous cid ws"
  using assms by (simp add: contiguous_def waiting_positions_def)

lemma process_waitlist_contiguous:
  assumes "contiguous cid (waitlist s)"
  shows "contiguous cid (waitlist (process_waitlist now k s))"
proof (cases "process_waitlist now k s = s")
  case True
  with assms show ?thesis by simp
next
  case False
  then obtain i rest where
    rows: "sort_key (\<lambda>i. position (waitlist s ! i)) (all_rows (is_waiting k) (waitlist s)) = i # rest"
    and res: "process_waitlist now k s = reorder_waitlist k
       (s\<lparr>waitlist := (waitlist s)[i := (waitlist s ! i)
            \<lparr>w_status := Notified, notification_time := Some now\<rparr>]\<rparr>)"
    by (auto simp: process_waitlist_def split: option.splits if_splits list.splits)
  show ?thesis
  proof (cases "cid = k")
    case True
    then show ?thesis by (simp add: res reorder_waitlist_contiguous)
  next
    case neq: False
    have "i \<in> set (sort_key (\<lambda>i. position (waitlist s ! i)) (all_rows (is_waiting k) (waitlist s)))"
      by (simp only: rows) simp
    then have "is_waiting k (waitlist s ! i)"
      by (auto dest: all_rows_bound)
    with neq have "\<not> is_waiting cid (waitlist s ! i)"
      "\<not> is_waiting cid ((waitlist s ! i)\<lparr>w_status := Notified, notification_time := Some now\<rparr>)"
      by (auto simp: is_waiting_def)
    then have "waiting_positions cid (waitlist (process_waitlist now k s))
        = waiting_positions cid (waitlist s)"
      using neq by (simp add: res reorder_waitlist_other_class waiting_positions_update)
    with assms show ?thesis by (simp add: contiguous_def)
  qed
qed

lemma reorder_waitlist_keeps_contiguous:
  assumes "contiguous cid (waitlist s)"
  shows "contiguous cid (waitlist (reorder_waitlist k s))"
proof (cases "cid = k")
  case True
  then show ?thesis by (simp add: reorder_waitlist_contiguous)
next
  case False
  with assms show ?thesis by (simp add: contiguous_def reorder_waitlist_other_class)
qed

lemma remove_from_waitlist_contiguous:
  assumes "contiguous cid (waitlist s)"
  shows "contiguous cid (waitlist (snd (remove_from_waitlist e u ro s)))"
proof (cases "snd (remove_from_waitlist e u ro s) = s")
  case True
  with assms show ?thesis by simp
next
  case False
  then obtain ei where
    res: "snd (remove_from_waitlist e u ro s) = reorder_waitlist (w_class_id (waitlist s ! ei))
       (s\<lparr>waitlist := (waitlist s)[ei := (waitlist s ! ei)\<lparr>w_status := Removed\<rparr>]\<rparr>)"
    by (auto simp: remove_from_waitlist_def Let_def split: option.splits if_splits)
  show ?thesis
  proof (cases "cid = w_class_id (waitlist s ! ei)")
    case True
    then show ?thesis by (simp add: res reorder_waitlist_contiguous)
  next
    case neq: False
    then have "\<not> is_waiting cid (waitlist s ! ei)"
      "\<not> is_waiting cid ((waitlist s ! ei)\<lparr>w_status := Removed\<rparr>)"
      by (auto simp: is_waiting_def)
    then have "waiting_positions cid (waitlist (snd (remove_from_waitlist e u ro s)))
        = waiting_positions cid (waitlist s)"
      using neq by (simp add: res reorder_waitlist_other_class waiting_positions_update)
    with assms show ?thesis by (simp add: contiguous_def)
  qed
qed

lemma cancel_class_waitlist [simp]:
  "waitlist (snd (cancel_class now k u ro re s)) = waitlist s"
  by (auto simp: cancel_class_def Let_def split: option.splits if_splits prod.splits)

lemma cancel_booking_contiguous:
  assumes "contiguous cid (waitlist s)"
  shows "contiguous cid (waitlist (snd (cancel_booking now b u ro re s)))"
proof (cases "snd (cancel_booking now b u ro re s) = s")
  case True
  with assms show ?thesis by simp
next
  case False
  then obtain k s0 where "snd (cancel_booking now b u ro re s) = process_waitlist now k s0"
    "waitlist s0 = waitlist s"
    by (auto simp: cancel_booking_def Let_def split: option.splits if_splits)
  with assms process_waitlist_contiguous [of cid s0 now k] show ?thesis by simp
qed

lemma create_booking_contiguous:
  assumes "contiguous cid (waitlist s)"
  shows "contiguous cid (waitlist (snd (create_booking now nid uid k s)))"
proof (cases "waitlist (snd (create_booking now nid uid k s)) = waitlist s")
  case True
  with assms show ?thesis by simp
next
  case False
  then have res: "waitlist (snd (create_booking now nid uid k s)) = waitlist s @
      [\<lparr>w_id = nid, w_user_id = uid, w_class_id = k,
        position = max_position k (waitlist s) + 1,
        join_time = now, w_status = Waiting, notification_time = None\<rparr>]"
    by (auto simp: create_booking_def insert_waitlist_entry_def split: option.splits if_splits)
  show ?thesis
  proof (cases "cid = k")
    case True
    with assms show ?thesis
      unfolding res by (intro contiguous_join) (simp_all add: is_waiting_def)
  next
    case False
    with assms show ?thesis
      unfolding res by (simp add: contiguous_snoc_other is_waiting_def)
  qed
qed

text \<open>
  Claim C2. If the waiting positions of a class are exactly \<open>1, \<dots>, N\<close> without
  duplicates, they are so again (for the new count) after every request of
  the workflow: a booking request that joins the waitlist, a cancellation, a
  removal from the waitlist, \<^verbatim>\<open>process_waitlist\<close>, \<^verbatim>\<open>reorder_waitlist\<close> and a
  class cancellation. \<^verbatim>\<open>reorder_waitlist\<close> establishes it from any store: the
  waiting rows of the class taken by ascending join time get the positions
  \<open>1, 2, 3, \<dots>\<close> in that order, so an earlier join time means a smaller
  position.
\<close>

theorem waitlist_positions_contiguous:
  "(contiguous cid (waitlist s) \<longrightarrow> contiguous cid (waitlist (handle r s)))
   \<and> contiguous cid (waitlist (reorder_waitlist cid s))
   \<and> map (\<lambda>j. position (waitlist (reorder_waitlist cid s) ! j))
        (sort_key (\<lambda>i. join_time (waitlist s ! i)) (all_rows (is_waiting cid) (waitlist s)))
      = [1..int (length (all_rows (is_waiting cid) (waitlist s)))]
   \<and> (\<forall>i j. i < length (waitlist s) \<and> j < length (waitlist s)
          \<and> is_waiting cid (waitlist s ! i) \<and> is_waiting cid (waitlist s ! j)
          \<and> join_time (waitlist s ! i) < join_time (waitlist s ! j) \<longrightarrow>
        position (waitlist (reorder_waitlist cid s) ! i)
          < position (waitlist (reorder_waitlist cid s) ! j))"
proof (intro conjI allI impI)
  assume c: "contiguous cid (waitlist s)"
  show "contiguous cid (waitlist (handle r s))"
  proof (cases r)
    case (CreateBooking now nid uid k)
    with c show ?thesis by (simp add: create_booking_contiguous)
  next
    case (CancelBooking now b u ro re)
    with c show ?thesis by (simp add: cancel_booking_contiguous)
  next
    case (RemoveFromWaitlist e u ro)
    with c show ?thesis by (simp add: remove_from_waitlist_contiguous)
  next
    case (ProcessWaitlist now k)
    with c show ?thesis by (simp add: process_waitlist_contiguous)
  next
    case (ReorderWaitlist k)
    with c show ?thesis by (simp add: reorder_waitlist_keeps_contiguous)
  next
    case (CancelClass now k u ro re)
    with c show ?thesis by simp
  qed
next
  show "contiguous cid (waitlist (reorder_waitlist cid s))"
    by (rule reorder_waitlist_contiguous)
next
  show "map (\<lambda>j. position (waitlist (reorder_waitlist cid s) ! j))
        (sort_key (\<lambda>i. join_time (waitlist s ! i)) (all_rows (is_waiting cid) (waitlist s)))
      = [1..int (length (all_rows (is_waiting cid) (waitlist s)))]"
    by (rule reorder_positions_in_order)
next
  fix i j
  assume "i < length (waitlist s) \<and> j < length (waitlist s)
          \<and> is_waiting cid (waitlist s ! i) \<and> is_waiting cid (waitlist s ! j)
          \<and> join_time (waitlist s ! i) < join_time (waitlist s ! j)"
  then show "position (waitlist (reorder_waitlist cid s) ! i)
          < position (waitlist (reorder_waitlist cid s) ! j)"
    by (intro reorder_waitlist_by_join_time) simp_all
qed

theorem waitlist_positions_contiguous_witness:
  "contiguous ''c1'' (waitlist studio_waiting)
   \<and> contiguous ''c1'' (waitlist (handle (RemoveFromWaitlist ''w1'' ''U'' ''member'') studio_waiting))
   \<and> \<not> contiguous ''c1'' (waitlist studio_gaps)
   \<and> contiguous ''c1'' (waitlist (reorder_waitlist ''c1'' studio_gaps))
   \<and> position (waitlist (reorder_waitlist ''c1'' studio_gaps) ! 1)
       < position (waitlist (reorder_waitlist ''c1'' studio_gaps) ! 0)"
proof -
  have before: "contiguous ''c1'' (waitlist studio_waiting)"
    by (simp add: studio_waiting_eq contiguous_def waiting_positions_def is_waiting_def)
  have gaps: "\<not> contiguous ''c1'' (waitlist studio_gaps)"
  proof
    assume "contiguous ''c1'' (waitlist studio_gaps)"
    then have "{3, 7} = {1..2::int}"
      by (simp add: studio_gaps_def contiguous_def waiting_positions_def is_waiting_def)
    then have "(7::int) \<in> {1..2}" by blast
    then show False by simp
  qed
  have rows: "1 < length (waitlist studio_gaps) \<and> 0 < length (waitlist studio_gaps)
      \<and> is_waiting ''c1'' (waitlist studio_gaps ! 1) \<and> is_waiting ''c1'' (waitlist studio_gaps ! 0)
      \<and> join_time (waitlist studio_gaps ! 1) < join_time (waitlist studio_gaps ! 0)"
    by (simp add: studio_gaps_def is_waiting_def)
  from waitlist_positions_contiguous
    [of "''c1''" studio_waiting "RemoveFromWaitlist ''w1'' ''U'' ''member''"] before
  have "contiguous ''c1'' (waitlist (handle (RemoveFromWaitlist ''w1'' ''U'' ''member'') studio_waiting))"
    by blast
  moreover from waitlist_positions_contiguous [of "''c1''" studio_gaps "ReorderWaitlist ''c1''"] rows
  have "contiguous ''c1'' (waitlist (reorder_waitlist ''c1'' studio_gaps))
    \<and> position (waitlist (reorder_waitlist ''c1'' studio_gaps) ! 1)
       < position (waitlist (reorder_waitlist ''c1'' studio_gaps) ! 0)"
    by blast
  ultimately show ?thesis using before gaps by blast
qed

section \<open>Class cancellation cascade\<close>

lemma refund_credits_length:
  "refund_credits lim now u a ms = Some ms' \<Longrightarrow> length ms' = length ms"
  by (auto simp: refund_credits_def split: option.splits if_splits)

lemma active_membership_refund:
  "refund_credits lim now' u' a ms = Some ms' \<Longrightarrow>
   active_membership now u ms' = active_membership now u ms"
  by (auto simp: refund_credits_def split: option.splits if_splits)

lemma refund_credits_nth:
  assumes "refund_credits lim now u a ms = Some ms'" "j < length ms"
  shows "ms' ! j =
     (if 0 < a \<and> active_membership now u ms = Some j
      then (ms ! j)\<lparr>remaining_credits := map_option (\<lambda>r. r + a) (remaining_credits (ms ! j))\<rparr>
      else ms ! j)"
  using assms
  by (cases "remaining_credits (ms ! j)")
     (auto simp: refund_credits_def nth_list_update split: option.splits if_splits)

lemma cancel_bookings_lengths:
  "cancel_bookings lim rows now (bs, ms) = Some (bs', ms') \<Longrightarrow>
   length bs' = length bs \<and> length ms' = length ms"
proof (induction rows arbitrary: bs ms)
  case Nil
  then show ?case by simp
next
  case (Cons i rows)
  then show ?case
    by (fastforce split: option.splits dest: refund_credits_length)
qed

lemma cancel_bookings_rows:
  assumes "cancel_bookings lim rows now (bs, ms) = Some (bs', ms')"
    and "distinct rows" "j < length bs"
  shows "bs' ! j =
     (if j \<in> set rows
      then (bs ! j)\<lparr>b_status := Cancelled, cancellation_time := Some now,
                     b_cancellation_reason := Some ''Class cancelled by trainer''\<rparr>
      else bs ! j)"
  using assms
proof (induction rows arbitrary: bs ms)
  case Nil
  then show ?case by simp
next
  case (Cons i rows)
  let ?bs = "bs[i := (bs ! i)\<lparr>b_status := Cancelled, cancellation_time := Some now,
                        b_cancellation_reason := Some ''Class cancelled by trainer''\<rparr>]"
  from Cons.prems(1) obtain ms1 where run: "cancel_bookings lim rows now (?bs, ms1) = Some (bs', ms')"
    by (auto split: option.splits)
  from Cons.prems have ni: "i \<notin> set rows" and d: "distinct rows" and j: "j < length ?bs"
    by simp_all
  note IH = Cons.IH [OF run d j]
  show ?case
  proof (cases "j = i")
    case True
    with ni IH Cons.prems(3) show ?thesis by simp
  next
    case False
    then have "?bs ! j = bs ! j" by simp
    with False IH show ?thesis by simp
  qed
qed

lemma refund_due_Cons:
  "refund_due now bs ms (i # rows) j =
     (if 0 < credits_used (bs ! i) \<and> active_membership now (b_user_id (bs ! i)) ms = Some j
      then credits_used (bs ! i) else 0) + refund_due now bs ms rows j"
  by (simp add: refund_due_def)

lemma refund_due_nonneg: "0 \<le> refund_due now bs ms rows j"
  by (induction rows) (simp_all add: refund_due_Cons, simp add: refund_due_def)

lemma refund_due_cong:
  assumes "\<And>k. k \<in> set rows \<Longrightarrow> bs' ! k = bs ! k"
    and "\<And>u. active_membership now u ms' = active_membership now u ms"
  shows "refund_due now bs' ms' rows j = refund_due now bs ms rows j"
  using assms(1)
  by (induction rows) (simp_all add: refund_due_Cons assms(2), simp add: refund_due_def)

lemma cancel_bookings_refunds:
  assumes "cancel_bookings lim rows now (bs, ms) = Some (bs', ms')"
    and "distinct rows" "j < length ms"
  shows "ms' ! j =
     (ms ! j)\<lparr>remaining_credits :=
        map_option (\<lambda>r. r + refund_due now bs ms rows j) (remaining_credits (ms ! j))\<rparr>"
  using assms
proof (induction rows arbitrary: bs ms)
  case Nil
  then show ?case by (simp add: refund_due_def option.map_ident)
next
  case (Cons i rows)
  let ?bs = "bs[i := (bs ! i)\<lparr>b_status := Cancelled, cancellation_time := Some now,
                        b_cancellation_reason := Some ''Class cancelled by trainer''\<rparr>]"
  from Cons.prems(1) obtain ms1 where
    rf: "refund_credits lim now (b_user_id (bs ! i)) (credits_used (bs ! i)) ms = Some ms1"
    and run: "cancel_bookings lim rows now (?bs, ms1) = Some (bs', ms')"
    by (auto split: option.splits)
  from Cons.prems have ni: "i \<notin> set rows" and d: "distinct rows" by simp_all
  from refund_credits_length [OF rf] Cons.prems(3) have j1: "j < length ms1" by simp
  have same: "refund_due now ?bs ms1 rows j = refund_due now bs ms rows j"
  proof (rule refund_due_cong)
    fix k
    assume "k \<in> set rows"
    with ni show "?bs ! k = bs ! k" by (metis nth_list_update_neq)
  next
    fix u
    show "active_membership now u ms1 = active_membership now u ms"
      by (rule active_membership_refund [OF rf])
  qed
  have "ms' ! j = (ms1 ! j)\<lparr>remaining_credits :=
        map_option (\<lambda>r. r + refund_due now bs ms rows j) (remaining_credits (ms1 ! j))\<rparr>"
    using Cons.IH [OF run d j1] by (simp add: same)
  also have "\<dots> = (ms ! j)\<lparr>remaining_credits :=
        map_option (\<lambda>r. r + refund_due now bs ms (i # rows) j) (remaining_credits (ms ! j))\<rparr>"
    using Cons.prems(3)
    by (cases "remaining_credits (ms ! j)")
       (simp_all add: refund_credits_nth [OF rf] refund_due_Cons)
  finally show ?case .
qed

lemma cancel_bookings_succeeds:
  assumes "distinct rows"
    and "\<forall>j<length ms. \<forall>r. remaining_credits (ms ! j) = Some r \<longrightarrow>
           fits lim r \<and> fits lim (r + refund_due now bs ms rows j)"
  shows "\<exists>res. cancel_bookings lim rows now (bs, ms) = Some res"
  using assms
proof (induction rows arbitrary: bs ms)
  case Nil
  then show ?case by simp
next
  case (Cons i rows)
  let ?bs = "bs[i := (bs ! i)\<lparr>b_status := Cancelled, cancellation_time := Some now,
                        b_cancellation_reason := Some ''Class cancelled by trainer''\<rparr>]"
  let ?u = "b_user_id (bs ! i)"
  let ?a = "credits_used (bs ! i)"
  from Cons.prems have ni: "i \<notin> set rows" and d: "distinct rows" by simp_all
  have "\<exists>ms1. refund_credits lim now ?u ?a ms = Some ms1"
  proof (cases "0 < ?a")
    case False
    then show ?thesis by (simp add: refund_credits_def)
  next
    case pos: True
    show ?thesis
    proof (cases "active_membership now ?u ms")
      case None
      with pos show ?thesis by (simp add: refund_credits_def)
    next
      case (Some mi)
      then have mi: "mi < length ms"
        unfolding active_membership_def by (auto dest: first_row_SomeD)
      show ?thesis
      proof (cases "remaining_credits (ms ! mi)")
        case None
        with pos Some show ?thesis by (simp add: refund_credits_def)
      next
        case (Some r)
        with Cons.prems(2) mi have "fits lim r" "fits lim (r + refund_due now bs ms (i # rows) mi)"
          by blast+
        moreover have "refund_due now bs ms (i # rows) mi = ?a + refund_due now bs ms rows mi"
          using pos \<open>active_membership now ?u ms = Some mi\<close> by (simp add: refund_due_Cons)
        ultimately have "fits lim (r + ?a)"
          using pos refund_due_nonneg [of now bs ms rows mi] by (simp add: fits_def)
        with pos Some \<open>active_membership now ?u ms = Some mi\<close> show ?thesis
          by (simp add: refund_credits_def)
      qed
    qed
  qed
  then obtain ms1 where rf: "refund_credits lim now ?u ?a ms = Some ms1" by blast
  have len: "length ms1 = length ms" by (rule refund_credits_length [OF rf])
  have same: "\<And>j. refund_due now ?bs ms1 rows j = refund_due now bs ms rows j"
  proof (rule refund_due_cong)
    fix k
    assume "k \<in> set rows"
    with ni show "?bs ! k = bs ! k" by (metis nth_list_update_neq)
  next
    fix u
    show "active_membership now u ms1 = active_membership now u ms"
      by (rule active_membership_refund [OF rf])
  qed
  have "\<forall>j<length ms1. \<forall>r. remaining_credits (ms1 ! j) = Some r \<longrightarrow>
           fits lim r \<and> fits lim (r + refund_due now ?bs ms1 rows j)"
  proof (intro allI impI)
    fix j r
    assume j: "j < length ms1" and r: "remaining_credits (ms1 ! j) = Some r"
    from j len have jl: "j < length ms" by simp
    show "fits lim r \<and> fits lim (r + refund_due now ?bs ms1 rows j)"
    proof (cases "0 < ?a \<and> active_membership now ?u ms = Some j")
      case True
      with refund_credits_nth [OF rf jl] r
      obtain r0 where r0: "remaining_credits (ms ! j) = Some r0" "r = r0 + ?a"
        by (cases "remaining_credits (ms ! j)") auto
      with Cons.prems(2) jl have f: "fits lim r0" "fits lim (r0 + refund_due now bs ms (i # rows) j)"
        by blast+
      have due: "refund_due now bs ms (i # rows) j = ?a + refund_due now bs ms rows j"
        using True by (simp add: refund_due_Cons)
      from f due True refund_due_nonneg [of now bs ms rows j] r0(2)
      show ?thesis by (simp add: fits_def same)
    next
      case False
      with refund_credits_nth [OF rf jl] r have r': "remaining_credits (ms ! j) = Some r"
        by simp
      from False have due: "refund_due now bs ms (i # rows) j = refund_due now bs ms rows j"
        by (auto simp: refund_due_Cons)
      from Cons.prems(2) jl r'
      have "fits lim r \<and> fits lim (r + refund_due now bs ms (i # rows) j)" by blast
      then show ?thesis by (simp add: same due)
    qed
  qed
  from Cons.IH [OF d this] rf show ?case by simp
qed

lemma cancel_class_done:
  assumes "cancel_class now cid uid ro reason s = (Inr Done, s')"
  shows "\<exists>c txt bs' ms'. classes s cid = Some c
    \<and> (ro = ''admin'' \<or> (ro = ''trainer'' \<and> trainer_id c = uid))
    \<and> \<not> is_cancelled c \<and> now \<le> end_time c \<and> reason = Some txt \<and> txt \<noteq> []
    \<and> cancel_bookings (integer_max s)
         (all_rows (\<lambda>b. b_class_id b = cid \<and> b_status b = Booked) (bookings s))
         now (bookings s, memberships s) = Some (bs', ms')
    \<and> s' = s\<lparr>classes := (classes s)(cid \<mapsto>
                 c\<lparr>is_cancelled := True, cancellation_reason := Some txt\<rparr>),
              bookings := bs', memberships := ms'\<rparr>"
  using assms
  by (auto simp: cancel_class_def split: option.splits if_splits prod.splits)

text \<open>
  Claim C7. When \<^verbatim>\<open>cancel_class\<close> succeeds, the class exists, the caller is an
  admin or the class's own trainer, the class was neither cancelled nor ended
  and the reason is not empty; the class is then cancelled with the reason
  stored; every booking of the class in status booked is cancelled with the
  cancellation time and the reason "Class cancelled by trainer", and every
  other booking row is untouched; each membership row with finite credits
  gains the credits of those cancelled bookings that used credits and whose
  user's active unexpired membership it is, and unlimited rows and all other
  fields stay as they were; the waitlist is the same (no promotion). And it
  does succeed under those conditions whenever every refunded balance fits
  the integer column.
\<close>

theorem cancel_class_cascade:
  "(\<forall>s'. cancel_class now cid uid ro reason s = (Inr Done, s') \<longrightarrow>
      (\<exists>c txt. classes s cid = Some c
        \<and> (ro = ''admin'' \<or> (ro = ''trainer'' \<and> trainer_id c = uid))
        \<and> \<not> is_cancelled c \<and> now \<le> end_time c \<and> reason = Some txt \<and> txt \<noteq> []
        \<and> classes s' = (classes s)(cid \<mapsto> c\<lparr>is_cancelled := True, cancellation_reason := Some txt\<rparr>)
        \<and> length (bookings s') = length (bookings s)
        \<and> (\<forall>i<length (bookings s). bookings s' ! i =
              (if b_class_id (bookings s ! i) = cid \<and> b_status (bookings s ! i) = Booked
               then (bookings s ! i)\<lparr>b_status := Cancelled, cancellation_time := Some now,
                      b_cancellation_reason := Some ''Class cancelled by trainer''\<rparr>
               else bookings s ! i))
        \<and> length (memberships s') = length (memberships s)
        \<and> (\<forall>j<length (memberships s). memberships s' ! j =
              (memberships s ! j)\<lparr>remaining_credits :=
                 map_option (\<lambda>r. r + refund_due now (bookings s) (memberships s)
                      (all_rows (\<lambda>b. b_class_id b = cid \<and> b_status b = Booked) (bookings s)) j)
                   (remaining_credits (memberships s ! j))\<rparr>)
        \<and> waitlist s' = waitlist s))
   \<and> (\<forall>c txt. classes s cid = Some c
          \<and> (ro = ''admin'' \<or> (ro = ''trainer'' \<and> trainer_id c = uid))
          \<and> \<not> is_cancelled c \<and> now \<le> end_time c \<and> reason = Some txt \<and> txt \<noteq> []
          \<and> (\<forall>j<length (memberships s). \<forall>r. remaining_credits (memberships s ! j) = Some r \<longrightarrow>
                fits (integer_max s) r
                \<and> fits (integer_max s) (r + refund_due now (bookings s) (memberships s)
                      (all_rows (\<lambda>b. b_class_id b = cid \<and> b_status b = Booked) (bookings s)) j)) \<longrightarrow>
        fst (cancel_class now cid uid ro reason s) = Inr Done)"
proof -
  let ?rows = "all_rows (\<lambda>b. b_class_id b = cid \<and> b_status b = Booked) (bookings s)"
  have effects: "\<forall>s'. cancel_class now cid uid ro reason s = (Inr Done, s') \<longrightarrow>
      (\<exists>c txt. classes s cid = Some c
        \<and> (ro = ''admin'' \<or> (ro = ''trainer'' \<and> trainer_id c = uid))
        \<and> \<not> is_cancelled c \<and> now \<le> end_time c \<and> reason = Some txt \<and> txt \<noteq> []
        \<and> classes s' = (classes s)(cid \<mapsto> c\<lparr>is_cancelled := True, cancellation_reason := Some txt\<rparr>)
        \<and> length (bookings s') = length (bookings s)
        \<and> (\<forall>i<length (bookings s). bookings s' ! i =
              (if b_class_id (bookings s ! i) = cid \<and> b_status (bookings s ! i) = Booked
               then (bookings s ! i)\<lparr>b_status := Cancelled, cancellation_time := Some now,
                      b_cancellation_reason := Some ''Class cancelled by trainer''\<rparr>
               else bookings s ! i))
        \<and> length (memberships s') = length (memberships s)
        \<and> (\<forall>j<length (memberships s). memberships s' ! j =
              (memberships s ! j)\<lparr>remaining_credits :=
                 map_option (\<lambda>r. r + refund_due now (bookings s) (memberships s) ?rows j)
                   (remaining_credits (memberships s ! j))\<rparr>)
        \<and> waitlist s' = waitlist s)"
  proof (intro allI impI)
    fix s'
    assume "cancel_class now cid uid ro reason s = (Inr Done, s')"
    from cancel_class_done [OF this] obtain c msg bs' ms' where
      g: "classes s cid = Some c" "ro = ''admin'' \<or> (ro = ''trainer'' \<and> trainer_id c = uid)"
        "\<not> is_cancelled c" "now \<le> end_time c" "reason = Some msg" "msg \<noteq> []"
      and run: "cancel_bookings (integer_max s) ?rows now (bookings s, memberships s) = Some (bs', ms')"
      and s': "s' = s\<lparr>classes := (classes s)(cid \<mapsto>
                 c\<lparr>is_cancelled := True, cancellation_reason := Some msg\<rparr>),
              bookings := bs', memberships := ms'\<rparr>"
      by blast
    have rows: "\<And>i. i < length (bookings s) \<Longrightarrow>
        i \<in> set ?rows \<longleftrightarrow> b_class_id (bookings s ! i) = cid \<and> b_status (bookings s ! i) = Booked"
      by (simp add: all_rows_def)
    have d: "distinct ?rows" by simp
    from cancel_bookings_lengths [OF run]
    have len: "length (bookings s') = length (bookings s)" "length (memberships s') = length (memberships s)"
      by (simp_all add: s')
    have b: "\<forall>i<length (bookings s). bookings s' ! i =
              (if b_class_id (bookings s ! i) = cid \<and> b_status (bookings s ! i) = Booked
               then (bookings s ! i)\<lparr>b_status := Cancelled, cancellation_time := Some now,
                      b_cancellation_reason := Some ''Class cancelled by trainer''\<rparr>
               else bookings s ! i)"
      by (simp add: s' cancel_bookings_rows [OF run d] rows)
    have m: "\<forall>j<length (memberships s). memberships s' ! j =
              (memberships s ! j)\<lparr>remaining_credits :=
                 map_option (\<lambda>r. r + refund_due now (bookings s) (memberships s) ?rows j)
                   (remaining_credits (memberships s ! j))\<rparr>"
      by (simp add: s' cancel_bookings_refunds [OF run d])
    have c': "classes s' = (classes s)(cid \<mapsto> c\<lparr>is_cancelled := True, cancellation_reason := Some msg\<rparr>)"
      and w: "waitlist s' = waitlist s"
      by (simp_all add: s')
    from g c' len b m w
    show "\<exists>c txt. classes s cid = Some c
        \<and> (ro = ''admin'' \<or> (ro = ''trainer'' \<and> trainer_id c = uid))
        \<and> \<not> is_cancelled c \<and> now \<le> end_time c \<and> reason = Some txt \<and> txt \<noteq> []
        \<and> classes s' = (classes s)(cid \<mapsto> c\<lparr>is_cancelled := True, cancellation_reason := Some txt\<rparr>)
        \<and> length (bookings s') = length (bookings s)
        \<and> (\<forall>i<length (bookings s). bookings s' ! i =
              (if b_class_id (bookings s ! i) = cid \<and> b_status (bookings s ! i) = Booked
               then (bookings s ! i)\<lparr>b_status := Cancelled, cancellation_time := Some now,
                      b_cancellation_reason := Some ''Class cancelled by trainer''\<rparr>
               else bookings s ! i))
        \<and> length (memberships s') = length (memberships s)
        \<and> (\<forall>j<length (memberships s). memberships s' ! j =
              (memberships s ! j)\<lparr>remaining_credits :=
                 map_option (\<lambda>r. r + refund_due now (bookings s) (memberships s) ?rows j)
                   (remaining_credits (memberships s ! j))\<rparr>)
        \<and> waitlist s' = waitlist s"
      by (intro exI [of _ c] exI [of _ msg] conjI)
  qed
  have succeeds: "\<forall>c txt. classes s cid = Some c
          \<and> (ro = ''admin'' \<or> (ro = ''trainer'' \<and> trainer_id c = uid))
          \<and> \<not> is_cancelled c \<and> now \<le> end_time c \<and> reason = Some txt \<and> txt \<noteq> []
          \<and> (\<forall>j<length (memberships s). \<forall>r. remaining_credits (memberships s ! j) = Some r \<longrightarrow>
                fits (integer_max s) r
                \<and> fits (integer_max s) (r + refund_due now (bookings s) (memberships s) ?rows j)) \<longrightarrow>
        fst (cancel_class now cid uid ro reason s) = Inr Done"
  proof (intro allI impI)
    fix c msg
    assume a: "classes s cid = Some c
          \<and> (ro = ''admin'' \<or> (ro = ''trainer'' \<and> trainer_id c = uid))
          \<and> \<not> is_cancelled c \<and> now \<le> end_time c \<and> reason = Some msg \<and> msg \<noteq> []
          \<and> (\<forall>j<length (memberships s). \<forall>r. remaining_credits (memberships s ! j) = Some r \<longrightarrow>
                fits (integer_max s) r
                \<and> fits (integer_max s) (r + refund_due now (bookings s) (memberships s) ?rows j))"
    then have "\<forall>j<length (memberships s). \<forall>r. remaining_credits (memberships s ! j) = Some r \<longrightarrow>
                fits (integer_max s) r
                \<and> fits (integer_max s) (r + refund_due now (bookings s) (memberships s) ?rows j)"
      by blast
    from cancel_bookings_succeeds [OF all_rows_distinct this]
    obtain res where "cancel_bookings (integer_max s) ?rows now (bookings s, memberships s) = Some res"
      by blast
    with a show "fst (cancel_class now cid uid ro reason s) = Inr Done"
      by (auto simp: cancel_class_def split: prod.splits)
  qed
  show ?thesis by (rule conjI [OF effects succeeds])
qed

lemma studio_three_due:
  "refund_due 50 (bookings studio_three) (memberships studio_three)
     (all_rows (\<lambda>b. b_class_id b = ''c3'' \<and> b_status b = Booked) (bookings studio_three)) 0 = 1"
  "refund_due 50 (bookings studio_three) (memberships studio_three)
     (all_rows (\<lambda>b. b_class_id b = ''c3'' \<and> b_status b = Booked) (bookings studio_three)) 1 = 1"
  by (simp_all add: refund_due_def studio_three_def all_rows_def active_membership_def)

theorem cancel_class_cascade_witness:
  "\<exists>s' c'. cancel_class 50 ''c3'' ''T'' ''trainer'' (Some ''Trainer is ill'') studio_three = (Inr Done, s')
     \<and> classes s' ''c3'' = Some c' \<and> is_cancelled c'
     \<and> map b_status (bookings s') = [Cancelled, Cancelled, Cancelled]
     \<and> map remaining_credits (memberships studio_three) = [Some 1, Some 0, None]
     \<and> map remaining_credits (memberships s') = [Some 2, Some 1, None]"
proof -
  let ?run = "cancel_class 50 ''c3'' ''T'' ''trainer'' (Some ''Trainer is ill'') studio_three"
  let ?rows = "all_rows (\<lambda>b. b_class_id b = ''c3'' \<and> b_status b = Booked) (bookings studio_three)"
  obtain c where c: "classes studio_three ''c3'' = Some c" "trainer_id c = ''T''"
      "\<not> is_cancelled c" "50 \<le> end_time c"
    by (simp add: studio_three_def)
  have bs: "length (bookings studio_three) = 3"
      "\<forall>i<3. b_class_id (bookings studio_three ! i) = ''c3'' \<and> b_status (bookings studio_three ! i) = Booked"
    by (simp_all add: studio_three_def nth_Cons split: nat.splits)
  have ms: "length (memberships studio_three) = 3"
      "map remaining_credits (memberships studio_three) = [Some 1, Some 0, None]"
    by (simp_all add: studio_three_def)
  have room: "\<forall>j<length (memberships studio_three). \<forall>r.
      remaining_credits (memberships studio_three ! j) = Some r \<longrightarrow>
        fits (integer_max studio_three) r
        \<and> fits (integer_max studio_three)
            (r + refund_due 50 (bookings studio_three) (memberships studio_three) ?rows j)"
    using studio_three_due
    by (auto simp: studio_three_def fits_def less_Suc_eq numeral_3_eq_3 numeral_2_eq_2)
  have guards: "classes studio_three ''c3'' = Some c
      \<and> (''trainer'' = ''admin'' \<or> (''trainer'' = ''trainer'' \<and> trainer_id c = ''T''))
      \<and> \<not> is_cancelled c \<and> 50 \<le> end_time c
      \<and> Some ''Trainer is ill'' = Some ''Trainer is ill'' \<and> ''Trainer is ill'' \<noteq> []
      \<and> (\<forall>j<length (memberships studio_three). \<forall>r.
            remaining_credits (memberships studio_three ! j) = Some r \<longrightarrow>
              fits (integer_max studio_three) r
              \<and> fits (integer_max studio_three)
                  (r + refund_due 50 (bookings studio_three) (memberships studio_three) ?rows j))"
    using c room by simp
  have "fst ?run = Inr Done"
    by (rule cancel_class_cascade [THEN conjunct2, rule_format, OF guards])
  then obtain s' where run: "?run = (Inr Done, s')"
    by (cases ?run) simp
  from cancel_class_cascade [THEN conjunct1, rule_format, OF run] c(1)
  have s': "classes s' = (classes studio_three)(''c3'' \<mapsto>
        c\<lparr>is_cancelled := True, cancellation_reason := Some ''Trainer is ill''\<rparr>)"
    "length (bookings s') = length (bookings studio_three)"
    "\<forall>i<length (bookings studio_three). bookings s' ! i =
          (if b_class_id (bookings studio_three ! i) = ''c3'' \<and> b_status (bookings studio_three ! i) = Booked
           then (bookings studio_three ! i)\<lparr>b_status := Cancelled, cancellation_time := Some 50,
                  b_cancellation_reason := Some ''Class cancelled by trainer''\<rparr>
           else bookings studio_three ! i)"
    "length (memberships s') = length (memberships studio_three)"
    "\<forall>j<length (memberships studio_three). memberships s' ! j =
          (memberships studio_three ! j)\<lparr>remaining_credits :=
             map_option (\<lambda>r. r + refund_due 50 (bookings studio_three) (memberships studio_three) ?rows j)
               (remaining_credits (memberships studio_three ! j))\<rparr>"
    by auto
  from s'(2,3) bs have b': "map b_status (bookings s') = [Cancelled, Cancelled, Cancelled]"
    by (intro nth_equalityI) (auto simp: nth_Cons split: nat.splits)
  have m0: "remaining_credits (memberships s' ! 0) = Some 2"
    and m1: "remaining_credits (memberships s' ! 1) = Some 1"
    and m2: "remaining_credits (memberships s' ! 2) = None"
    using s'(5) ms(1) studio_three_due by (simp_all add: studio_three_def)
  from s'(4) ms(1) m0 m1 m2 have m': "map remaining_credits (memberships s') = [Some 2, Some 1, None]"
    by (intro nth_equalityI) (auto simp: nth_Cons less_Suc_eq numeral_3_eq_3 numeral_2_eq_2 split: nat.splits)
  from run s'(1) b' ms(2) m' show ?thesis by auto
qed

text \<open>
  The failing commit: a refund that would pass the column maximum makes the
  whole cancellation a server error, and the class stays as it was.
\<close>

lemma cancel_class_refund_overflow:
  "cancel_class 50 ''c3'' ''T'' ''trainer'' (Some ''Trainer is ill'') studio_three_max
   = (Inl ServerError, studio_three_max)"
  by (simp add: studio_three_max_def studio_three_def cancel_class_def all_rows_def
        refund_credits_def active_membership_def fits_def)

section \<open>Promotion from the waitlist\<close>

lemma all_rows_sorted [simp]: "sorted (all_rows P xs)"
  using sorted_filter [of "\<lambda>x. x" "[0..<length xs]"] by (simp add: all_rows_def)

lemma filter_sorted_head:
  fixes xs :: "nat list"
  assumes "sorted xs" "filter Q xs = i # rest" "j \<in> set xs" "Q j"
  shows "i \<le> j"
proof -
  from assms(1) have "sorted (filter Q xs)"
    using sorted_filter [of "\<lambda>x. x" xs Q] by simp
  moreover from assms(3,4) have "j \<in> set (filter Q xs)" by simp
  ultimately show ?thesis by (auto simp: assms(2))
qed

lemma sort_key_head:
  fixes xs :: "nat list" and f :: "nat \<Rightarrow> int"
  assumes "sort_key f xs = i # rest" "sorted xs"
  shows "i \<in> set xs"
    and "\<forall>j\<in>set xs. f i \<le> f j"
    and "\<forall>j\<in>set xs. j < i \<longrightarrow> f i < f j"
proof -
  have st: "set xs = set (i # rest)"
    using set_sort [of f xs] by (simp only: assms(1))
  then show "i \<in> set xs" by simp
  have "sorted (map f (i # rest))"
    using sorted_sort_key [of f xs] by (simp only: assms(1))
  then have "\<forall>j\<in>set rest. f i \<le> f j" by simp
  with st show le: "\<forall>j\<in>set xs. f i \<le> f j" by auto
  have "filter (\<lambda>y. f y = f i) xs = filter (\<lambda>y. f y = f i) (i # rest)"
    using sort_key_stable [of f "f i" xs] by (simp only: assms(1))
  then have hd: "filter (\<lambda>y. f y = f i) xs = i # filter (\<lambda>y. f y = f i) rest" by simp
  show "\<forall>j\<in>set xs. j < i \<longrightarrow> f i < f j"
  proof (intro ballI impI)
    fix j
    assume j: "j \<in> set xs" "j < i"
    have "f j \<noteq> f i"
    proof
      assume "f j = f i"
      with filter_sorted_head [OF assms(2) hd j(1)] j(2) show False by simp
    qed
    with le j(1) show "f i < f j" by force
  qed
qed

lemma reorder_waitlist_status [simp]:
  "w_status (waitlist (reorder_waitlist cid s) ! j) = w_status (waitlist s ! j)"
  by (simp add: reorder_waitlist_rows assign_positions_fields)

lemma process_waitlist_noop:
  "classes s cid = None \<Longrightarrow> process_waitlist now cid s = s"
  "classes s cid = Some c \<Longrightarrow> capacity c \<le> booking_count cid (bookings s) \<Longrightarrow>
     process_waitlist now cid s = s"
  "\<forall>e\<in>set (waitlist s). \<not> is_waiting cid e \<Longrightarrow> process_waitlist now cid s = s"
proof -
  show "classes s cid = None \<Longrightarrow> process_waitlist now cid s = s"
    by (simp add: process_waitlist_def)
  show "classes s cid = Some c \<Longrightarrow> capacity c \<le> booking_count cid (bookings s) \<Longrightarrow>
     process_waitlist now cid s = s"
    by (simp add: process_waitlist_def)
  assume "\<forall>e\<in>set (waitlist s). \<not> is_waiting cid e"
  then have "all_rows (is_waiting cid) (waitlist s) = []"
    by (simp add: all_rows_def filter_empty_conv)
  then show "process_waitlist now cid s = s"
    by (simp add: process_waitlist_def split: option.splits)
qed

lemma process_waitlist_promotes:
  assumes cls: "classes s cid = Some c" "booking_count cid (bookings s) < capacity c"
    and some: "\<exists>e\<in>set (waitlist s). is_waiting cid e"
  shows "\<exists>i<length (waitlist s).
      is_waiting cid (waitlist s ! i)
      \<and> (\<forall>j<length (waitlist s). is_waiting cid (waitlist s ! j) \<longrightarrow>
            position (waitlist s ! i) \<le> position (waitlist s ! j))
      \<and> (\<forall>j<i. is_waiting cid (waitlist s ! j) \<longrightarrow>
            position (waitlist s ! i) < position (waitlist s ! j))
      \<and> process_waitlist now cid s =
          reorder_waitlist cid (s\<lparr>waitlist := (waitlist s)[i := (waitlist s ! i)
             \<lparr>w_status := Notified, notification_time := Some now\<rparr>]\<rparr>)
      \<and> waitlist (process_waitlist now cid s) ! i =
          (waitlist s ! i)\<lparr>w_status := Notified, notification_time := Some now\<rparr>
      \<and> (\<forall>j<length (waitlist s). j \<noteq> i \<longrightarrow>
            w_status (waitlist (process_waitlist now cid s) ! j) = w_status (waitlist s ! j))"
proof -
  let ?ws = "waitlist s"
  let ?R = "all_rows (is_waiting cid) ?ws"
  let ?f = "\<lambda>i. position (?ws ! i)"
  from some obtain k where "k < length ?ws" "is_waiting cid (?ws ! k)"
    by (auto simp: in_set_conv_nth)
  then have "k \<in> set ?R" by (simp add: all_rows_def)
  then have "sort_key ?f ?R \<noteq> []"
    by (metis empty_iff list.set(1) set_sort)
  then obtain i rest where hd: "sort_key ?f ?R = i # rest"
    by (cases "sort_key ?f ?R") auto
  from sort_key_head [OF hd all_rows_sorted]
  have i: "i \<in> set ?R" and least: "\<forall>j\<in>set ?R. ?f i \<le> ?f j"
    and first: "\<forall>j\<in>set ?R. j < i \<longrightarrow> ?f i < ?f j"
    by blast+
  from i have il: "i < length ?ws" and iw: "is_waiting cid (?ws ! i)"
    by (auto dest: all_rows_bound)
  let ?e = "(?ws ! i)\<lparr>w_status := Notified, notification_time := Some now\<rparr>"
  let ?s1 = "s\<lparr>waitlist := ?ws[i := ?e]\<rparr>"
  have res: "process_waitlist now cid s = reorder_waitlist cid ?s1"
    using cls hd by (simp add: process_waitlist_def)
  have "\<not> is_waiting cid (waitlist ?s1 ! i)"
    using il by (simp add: is_waiting_def)
  then have row: "waitlist (process_waitlist now cid s) ! i = ?e"
    using il by (simp add: res reorder_waitlist_other_rows)
  have others: "\<forall>j<length ?ws. j \<noteq> i \<longrightarrow>
      w_status (waitlist (process_waitlist now cid s) ! j) = w_status (?ws ! j)"
    by (simp add: res)
  have "\<forall>j<length ?ws. is_waiting cid (?ws ! j) \<longrightarrow> ?f i \<le> ?f j"
    using least by (simp add: all_rows_def)
  moreover have "\<forall>j<i. is_waiting cid (?ws ! j) \<longrightarrow> ?f i < ?f j"
    using first il by (simp add: all_rows_def)
  ultimately show ?thesis
    using il iw res row others by blast
qed

text \<open>
  Claim C5 as stated fails on its tie rule: in \<open>studio_tie\<close> the two waiting
  entries of \<open>c1\<close> have the same position and the class has room;
  \<^verbatim>\<open>process_waitlist\<close> notifies the entry in row 0, which joined at 56, and
  leaves waiting the entry in row 1, which joined at 55.
\<close>

theorem process_waitlist_tie_counterexample:
  "is_waiting ''c1'' (waitlist studio_tie ! 0) \<and> is_waiting ''c1'' (waitlist studio_tie ! 1)
   \<and> position (waitlist studio_tie ! 0) = position (waitlist studio_tie ! 1)
   \<and> join_time (waitlist studio_tie ! 1) < join_time (waitlist studio_tie ! 0)
   \<and> w_status (waitlist (process_waitlist 60 ''c1'' studio_tie) ! 0) = Notified
   \<and> w_status (waitlist (process_waitlist 60 ''c1'' studio_tie) ! 1) = Waiting"
  by (simp add: studio_tie_def studio_freed_def studio_waiting_eq studio_full_eq studio_def
        process_waitlist_def booking_count_def is_active_booking_def all_rows_def is_waiting_def)

text \<open>
  Claim C5, amended in the tie rule only. \<^verbatim>\<open>process_waitlist\<close> never touches
  bookings or memberships. It changes nothing when the class is full or when
  no entry of the class is waiting. Otherwise exactly one row changes status:
  a waiting row of the class whose position is the smallest and, among
  waiting rows with that same position, the first in row order (the query
  orders by position alone; join time plays no part). That row becomes
  notified with the notification time set and keeps its position; then the
  waiting entries that remain are reordered.
\<close>

theorem process_waitlist_notification_only:
  "bookings (process_waitlist now cid s) = bookings s
   \<and> memberships (process_waitlist now cid s) = memberships s
   \<and> (\<forall>c. classes s cid = Some c \<and> capacity c \<le> booking_count cid (bookings s) \<longrightarrow>
        process_waitlist now cid s = s)
   \<and> ((\<forall>e\<in>set (waitlist s). \<not> is_waiting cid e) \<longrightarrow> process_waitlist now cid s = s)
   \<and> (\<forall>c. classes s cid = Some c \<and> booking_count cid (bookings s) < capacity c
          \<and> (\<exists>e\<in>set (waitlist s). is_waiting cid e) \<longrightarrow>
        (\<exists>i<length (waitlist s).
           is_waiting cid (waitlist s ! i)
           \<and> (\<forall>j<length (waitlist s). is_waiting cid (waitlist s ! j) \<longrightarrow>
                 position (waitlist s ! i) \<le> position (waitlist s ! j))
           \<and> (\<forall>j<i. is_waiting cid (waitlist s ! j) \<longrightarrow>
                 position (waitlist s ! i) < position (waitlist s ! j))
           \<and> process_waitlist now cid s =
               reorder_waitlist cid (s\<lparr>waitlist := (waitlist s)[i := (waitlist s ! i)
                  \<lparr>w_status := Notified, notification_time := Some now\<rparr>]\<rparr>)
           \<and> waitlist (process_waitlist now cid s) ! i =
               (waitlist s ! i)\<lparr>w_status := Notified, notification_time := Some now\<rparr>
           \<and> (\<forall>j<length (waitlist s). j \<noteq> i \<longrightarrow>
                 w_status (waitlist (process_waitlist now cid s) ! j) = w_status (waitlist s ! j))))"
proof (intro conjI allI impI)
  show "bookings (process_waitlist now cid s) = bookings s"
    and "memberships (process_waitlist now cid s) = memberships s"
    by simp_all
next
  fix c
  assume "classes s cid = Some c \<and> capacity c \<le> booking_count cid (bookings s)"
  then show "process_waitlist now cid s = s"
    by (simp add: process_waitlist_noop(2))
next
  assume "\<forall>e\<in>set (waitlist s). \<not> is_waiting cid e"
  then show "process_waitlist now cid s = s"
    by (rule process_waitlist_noop(3))
next
  fix c
  assume a: "classes s cid = Some c \<and> booking_count cid (bookings s) < capacity c
          \<and> (\<exists>e\<in>set (waitlist s). is_waiting cid e)"
  then have "classes s cid = Some c" "booking_count cid (bookings s) < capacity c"
    "\<exists>e\<in>set (waitlist s). is_waiting cid e"
    by simp_all
  then show "\<exists>i<length (waitlist s).
           is_waiting cid (waitlist s ! i)
           \<and> (\<forall>j<length (waitlist s). is_waiting cid (waitlist s ! j) \<longrightarrow>
                 position (waitlist s ! i) \<le> position (waitlist s ! j))
           \<and> (\<forall>j<i. is_waiting cid (waitlist s ! j) \<longrightarrow>
                 position (waitlist s ! i) < position (waitlist s ! j))
           \<and> process_waitlist now cid s =
               reorder_waitlist cid (s\<lparr>waitlist := (waitlist s)[i := (waitlist s ! i)
                  \<lparr>w_status := Notified, notification_time := Some now\<rparr>]\<rparr>)
           \<and> waitlist (process_waitlist now cid s) ! i =
               (waitlist s ! i)\<lparr>w_status := Notified, notification_time := Some now\<rparr>
           \<and> (\<forall>j<length (waitlist s). j \<noteq> i \<longrightarrow>
                 w_status (waitlist (process_waitlist now cid s) ! j) = w_status (waitlist s ! j))"
    by (rule process_waitlist_promotes)
qed

lemma studio_waiting_cancel:
  "snd (cancel_booking 60 ''b1'' ''A'' ''member'' None studio_waiting)
   = process_waitlist 60 ''c1'' studio_freed"
  by (simp add: studio_freed_def studio_waiting_eq studio_full_eq studio_def cancel_booking_def
        refund_credits_def active_membership_def fits_def)

theorem process_waitlist_notification_only_witness:
  "w_user_id (waitlist studio_waiting ! 0) = ''U''
   \<and> w_status (waitlist studio_waiting ! 0) = Waiting
   \<and> position (waitlist studio_waiting ! 0) = 1
   \<and> w_status (waitlist (snd (cancel_booking 60 ''b1'' ''A'' ''member'' None studio_waiting)) ! 0)
       = Notified
   \<and> notification_time (waitlist (snd (cancel_booking 60 ''b1'' ''A'' ''member'' None studio_waiting)) ! 0)
       = Some 60
   \<and> position (waitlist (snd (cancel_booking 60 ''b1'' ''A'' ''member'' None studio_waiting)) ! 0)
       = 1
   \<and> bookings (snd (cancel_booking 60 ''b1'' ''A'' ''member'' None studio_waiting))
       = bookings studio_freed"
proof -
  have before: "w_user_id (waitlist studio_waiting ! 0) = ''U''"
      "w_status (waitlist studio_waiting ! 0) = Waiting"
      "position (waitlist studio_waiting ! 0) = 1"
    by (simp_all add: studio_waiting_eq)
  obtain c where c: "classes studio_freed ''c1'' = Some c"
      "booking_count ''c1'' (bookings studio_freed) < capacity c"
    by (simp add: studio_freed_def studio_waiting_eq studio_full_eq studio_def booking_count_def
        is_active_booking_def)
  have ws: "waitlist studio_freed = waitlist studio_waiting" "length (waitlist studio_freed) = 1"
    by (simp_all add: studio_freed_def studio_waiting_eq)
  have w: "\<exists>e\<in>set (waitlist studio_freed). is_waiting ''c1'' e"
    by (simp add: studio_freed_def studio_waiting_eq is_waiting_def)
  from process_waitlist_notification_only [of 60 "''c1''" studio_freed] c w ws(2)
  have "waitlist (process_waitlist 60 ''c1'' studio_freed) ! 0 =
          (waitlist studio_freed ! 0)\<lparr>w_status := Notified, notification_time := Some 60\<rparr>"
    and "bookings (process_waitlist 60 ''c1'' studio_freed) = bookings studio_freed"
    by (metis less_one)+
  with before ws(1) show ?thesis
    by (simp add: studio_waiting_cancel)
qed

end
